theory Spec2Isabelle
  imports Complex_Main "HOL-Library.Word" "HOL-Library.AList"
begin

section \<open>Basic data: bytes, buffers, JavaScript values\<close>

text \<open>
  A Node \<open>Buffer\<close> is a sequence of octets. JavaScript strings are modelled as
  \<open>string\<close> (lists of 8-bit characters), a JavaScript \<open>number\<close> as a \<open>real\<close>
  (every finite double is a real and the comparisons of the source are exact on them;
  NaN and the infinities cannot occur in the JSON arguments of a tool call).
\<close>

type_synonym byte = "8 word"
type_synonym buffer = "byte list"

section \<open>utils.ts: PNG signature check\<close>

definition pngSignature :: buffer where
  "pngSignature = [0x89, 0x50, 0x4e, 0x47, 0x0d, 0x0a, 0x1a, 0x0a]"

text \<open>\<open>buffer.subarray(0, 8)\<close> is \<open>take 8\<close>; \<open>equals\<close> compares length and contents.\<close>

definition validatePNGFormat :: "buffer \<Rightarrow> bool" where
  "validatePNGFormat buf =
     (if length buf < 8 then False else take 8 buf = pngSignature)"

section \<open>utils.ts: DALL-E model constraints\<close>

text \<open>
  The parameter object of \<open>validateDALLEParams\<close>: \<open>model\<close> is required, the other
  fields may be \<open>undefined\<close> (\<open>None\<close>).
\<close>

record dalle_params =
  p_model :: string
  p_size :: "string option"
  p_quality :: "string option"
  p_style :: "string option"
  p_n :: "real option"

text \<open>JavaScript truthiness of an optional string and of an optional number.\<close>

definition truthy_str :: "string option \<Rightarrow> bool" where
  "truthy_str s = (case s of None \<Rightarrow> False | Some v \<Rightarrow> v \<noteq> [])"

definition truthy_num :: "real option \<Rightarrow> bool" where
  "truthy_num x = (case x of None \<Rightarrow> False | Some v \<Rightarrow> v \<noteq> 0)"

definition n_above_one :: "real option \<Rightarrow> bool" where
  "n_above_one x = (truthy_num x \<and> (case x of None \<Rightarrow> False | Some v \<Rightarrow> v > 1))"

definition size_not_in :: "string option \<Rightarrow> string list \<Rightarrow> bool" where
  "size_not_in s allowed =
     (truthy_str s \<and> (case s of None \<Rightarrow> False | Some v \<Rightarrow> \<not> List.member allowed v))"

definition dalle3_sizes :: "string list" where
  "dalle3_sizes = [''1024x1024'', ''1792x1024'', ''1024x1792'']"

definition dalle2_sizes :: "string list" where
  "dalle2_sizes = [''256x256'', ''512x512'', ''1024x1024'']"

definition msg_d3_n :: string where
  "msg_d3_n = ''DALL-E 3 only supports n=1''"

definition msg_d3_size :: string where
  "msg_d3_size = ''DALL-E 3 only supports sizes: 1024x1024, 1792x1024, 1024x1792''"

definition msg_d2_hd :: string where
  "msg_d2_hd = ''DALL-E 2 does not support 'hd' quality''"

definition msg_d2_style :: string where
  "msg_d2_style = ''DALL-E 2 does not support 'style' parameter''"

definition msg_d2_size :: string where
  "msg_d2_size = ''DALL-E 2 only supports sizes: 256x256, 512x512, 1024x1024''"

text \<open>
  \<open>validateDALLEParams\<close> pushes one message per violated rule onto \<open>errors\<close>, in
  source order, and returns the list (\<open>valid\<close> is \<open>errors.length === 0\<close>).
\<close>

definition validateDALLEParams_errors :: "dalle_params \<Rightarrow> string list" where
  "validateDALLEParams_errors p =
     (if p_model p = ''dall-e-3'' then
        (if n_above_one (p_n p) then [msg_d3_n] else []) @
        (if size_not_in (p_size p) dalle3_sizes then [msg_d3_size] else [])
      else if p_model p = ''dall-e-2'' then
        (if p_quality p = Some ''hd'' then [msg_d2_hd] else []) @
        (if truthy_str (p_style p) then [msg_d2_style] else []) @
        (if size_not_in (p_size p) dalle2_sizes then [msg_d2_size] else [])
      else [])"

definition validateDALLEParams :: "dalle_params \<Rightarrow> bool \<times> string list" where
  "validateDALLEParams p =
     (let errors = validateDALLEParams_errors p in (errors = [], errors))"

text \<open>\<open>s.includes(t)\<close>: \<open>t\<close> occurs in \<open>s\<close> as a contiguous substring.\<close>

fun is_prefix :: "string \<Rightarrow> string \<Rightarrow> bool" where
  "is_prefix [] s = True"
| "is_prefix (c # cs) [] = False"
| "is_prefix (c # cs) (d # ds) = (c = d \<and> is_prefix cs ds)"

fun js_includes :: "string \<Rightarrow> string \<Rightarrow> bool" where
  "js_includes [] t = (t = [])"
| "js_includes (c # cs) t = (is_prefix t (c # cs) \<or> js_includes cs t)"

section \<open>JSON arguments and the schema combinators of zod\<close>

text \<open>
  The argument bag of a tool call is a JSON value. An object is an association list;
  a property is read with \<open>map_of\<close> (\<open>None\<close> is JavaScript's \<open>undefined\<close>).
\<close>

datatype json =
    JNull
  | JBool bool
  | JNum real
  | JStr string
  | JArr "json list"
  | JObj "(string \<times> json) list"

text \<open>Decimal rendering of numbers, as template literals and \<open>join\<close> produce it.\<close>

definition digit_char :: "nat \<Rightarrow> char" where
  "digit_char d = ''0123456789'' ! d"

fun show_nat :: "nat \<Rightarrow> string" where
  "show_nat k = (if k < 10 then [digit_char k] else show_nat (k div 10) @ [digit_char (k mod 10)])"

definition show_int :: "int \<Rightarrow> string" where
  "show_int i = (if i < 0 then CHR ''-'' # show_nat (nat (- i)) else show_nat (nat i))"

text \<open>\<open>Array.prototype.join\<close>.\<close>

fun join :: "string \<Rightarrow> string list \<Rightarrow> string" where
  "join sep [] = []"
| "join sep [x] = x"
| "join sep (x # y # ys) = x @ sep @ join sep (y # ys)"

text \<open>
  A zod issue carries a path (property names and array indices) and a message.
  \<open>ZodError.errors\<close> is the list of all issues found.
\<close>

datatype pkey = Key string | Idx nat

type_synonym issue = "pkey list \<times> string"

text \<open>A schema maps an input (possibly \<open>undefined\<close>) to its issues or to the parsed output.\<close>

type_synonym zschema = "json option \<Rightarrow> issue list + json option"

fun received :: "json option \<Rightarrow> string" where
  "received None = ''undefined''"
| "received (Some JNull) = ''null''"
| "received (Some (JBool b)) = ''boolean''"
| "received (Some (JNum x)) = ''number''"
| "received (Some (JStr s)) = ''string''"
| "received (Some (JArr xs)) = ''array''"
| "received (Some (JObj kvs)) = ''object''"

definition invalid_type :: "string \<Rightarrow> json option \<Rightarrow> issue" where
  "invalid_type expected inp =
     ([], if inp = None then ''Required''
          else ''Expected '' @ expected @ '', received '' @ received inp)"

definition z_string :: zschema where
  "z_string inp =
     (case inp of Some (JStr s) \<Rightarrow> Inr (Some (JStr s))
      | _ \<Rightarrow> Inl [invalid_type ''string'' inp])"

definition z_string_max :: "nat \<Rightarrow> zschema" where
  "z_string_max m inp =
     (case inp of
        Some (JStr s) \<Rightarrow>
          if length s > m
          then Inl [([], ''String must contain at most '' @ show_nat m @ '' character(s)'')]
          else Inr (Some (JStr s))
      | _ \<Rightarrow> Inl [invalid_type ''string'' inp])"

definition z_boolean :: zschema where
  "z_boolean inp =
     (case inp of Some (JBool b) \<Rightarrow> Inr (Some (JBool b))
      | _ \<Rightarrow> Inl [invalid_type ''boolean'' inp])"

datatype numcheck = Min int | Max int | Positive

fun numcheck_issues :: "real \<Rightarrow> numcheck \<Rightarrow> issue list" where
  "numcheck_issues v (Min a) =
     (if v < of_int a
      then [([], ''Number must be greater than or equal to '' @ show_int a)] else [])"
| "numcheck_issues v (Max b) =
     (if v > of_int b
      then [([], ''Number must be less than or equal to '' @ show_int b)] else [])"
| "numcheck_issues v Positive =
     (if v \<le> 0 then [([], ''Number must be greater than 0'')] else [])"

definition z_number :: "numcheck list \<Rightarrow> zschema" where
  "z_number checks inp =
     (case inp of
        Some (JNum v) \<Rightarrow>
          (let issues = concat (map (numcheck_issues v) checks)
           in if issues = [] then Inr (Some (JNum v)) else Inl issues)
      | _ \<Rightarrow> Inl [invalid_type ''number'' inp])"

definition enum_expected :: "string list \<Rightarrow> string" where
  "enum_expected opts = join '' | '' (map (\<lambda>s. [CHR 0x27] @ s @ [CHR 0x27]) opts)"

definition z_enum :: "string list \<Rightarrow> zschema" where
  "z_enum opts inp =
     (case inp of
        Some (JStr s) \<Rightarrow>
          if List.member opts s then Inr (Some (JStr s))
          else Inl [([], ''Invalid enum value. Expected '' @ enum_expected opts
                          @ '', received '' @ [CHR 0x27] @ s @ [CHR 0x27])]
      | _ \<Rightarrow> Inl [invalid_type (enum_expected opts) inp])"

definition z_optional :: "zschema \<Rightarrow> zschema" where
  "z_optional inner inp = (if inp = None then Inr None else inner inp)"

definition z_default :: "zschema \<Rightarrow> json \<Rightarrow> zschema" where
  "z_default inner d inp = (if inp = None then inner (Some d) else inner inp)"

fun z_union :: "zschema list \<Rightarrow> zschema" where
  "z_union [] inp = Inl [([], ''Invalid input'')]"
| "z_union (s # ss) inp = (case s inp of Inr v \<Rightarrow> Inr v | Inl _ \<Rightarrow> z_union ss inp)"

text \<open>Issues of a property or element are reported below the key of that property.\<close>

definition sub_issues :: "pkey \<Rightarrow> issue list + json option \<Rightarrow> issue list" where
  "sub_issues k r =
     (case r of Inl issues \<Rightarrow> map (\<lambda>(path, msg). (k # path, msg)) issues | Inr _ \<Rightarrow> [])"

definition sub_output :: "issue list + json option \<Rightarrow> json list" where
  "sub_output r = (case r of Inr (Some v) \<Rightarrow> [v] | _ \<Rightarrow> [])"

definition z_array :: "zschema \<Rightarrow> zschema" where
  "z_array elem inp =
     (case inp of
        Some (JArr xs) \<Rightarrow>
          (let rs = map (\<lambda>(i, x). (i, elem (Some x))) (zip [0..<length xs] xs);
               issues = concat (map (\<lambda>(i, r). sub_issues (Idx i) r) rs)
           in if issues = [] then Inr (Some (JArr (concat (map (\<lambda>(i, r). sub_output r) rs))))
              else Inl issues)
      | _ \<Rightarrow> Inl [invalid_type ''array'' inp])"

text \<open>
  \<open>z.object\<close> parses every property of its shape, in the order of the shape, collects
  the issues of all of them, and drops the keys that are not in the shape.
\<close>

definition object_issues :: "(string \<times> zschema) list \<Rightarrow> (string \<times> json) list \<Rightarrow> issue list" where
  "object_issues shape kvs =
     concat (map (\<lambda>(k, s). sub_issues (Key k) (s (map_of kvs k))) shape)"

definition object_output :: "(string \<times> zschema) list \<Rightarrow> (string \<times> json) list \<Rightarrow> (string \<times> json) list" where
  "object_output shape kvs =
     concat (map (\<lambda>(k, s). map (Pair k) (sub_output (s (map_of kvs k)))) shape)"

definition z_object :: "(string \<times> zschema) list \<Rightarrow> zschema" where
  "z_object shape inp =
     (case inp of
        Some (JObj kvs) \<Rightarrow>
          if object_issues shape kvs = [] then Inr (Some (JObj (object_output shape kvs)))
          else Inl (object_issues shape kvs)
      | _ \<Rightarrow> Inl [invalid_type ''object'' inp])"

text \<open>
  Both request handlers render a \<open>ZodError\<close> as
  \<open>error.errors.map((e) => `${e.path.join(".")}: ${e.message}`).join(", ")\<close>.
\<close>

fun show_pkey :: "pkey \<Rightarrow> string" where
  "show_pkey (Key k) = k"
| "show_pkey (Idx i) = show_nat i"

definition format_issue :: "issue \<Rightarrow> string" where
  "format_issue e = join ''.'' (map show_pkey (fst e)) @ '': '' @ snd e"

definition format_issues :: "issue list \<Rightarrow> string" where
  "format_issues es = join '', '' (map format_issue es)"

section \<open>The base64 codec of Node's Buffer\<close>

text \<open>
  \<open>buffer.toString("base64")\<close> and \<open>Buffer.from(s, "base64")\<close> belong to the Node
  runtime. The encoder is RFC 4648 with padding. The decoder is forgiving: it never throws
  on a string; it skips every character outside the alphabet (the URL-safe \<open>-\<close> and
  \<open>_\<close> count as 62 and 63), stops at the first \<open>=\<close>, and turns a final group of two
  or three sextets into one or two bytes.
\<close>

definition b64chars :: string where
  "b64chars = ''ABCDEFGHIJKLMNOPQRSTUVWXYZabcdefghijklmnopqrstuvwxyz0123456789+/''"

definition b64 :: "nat \<Rightarrow> char" where
  "b64 k = b64chars ! k"

fun base64_encode :: "buffer \<Rightarrow> string" where
  "base64_encode (a # b # c # rest) =
     (let x = unat a; y = unat b; z = unat c
      in [b64 (x div 4), b64 ((x mod 4) * 16 + y div 16),
          b64 ((y mod 16) * 4 + z div 64), b64 (z mod 64)] @ base64_encode rest)"
| "base64_encode [a, b] =
     (let x = unat a; y = unat b
      in [b64 (x div 4), b64 ((x mod 4) * 16 + y div 16), b64 ((y mod 16) * 4), CHR ''=''])"
| "base64_encode [a] =
     (let x = unat a in [b64 (x div 4), b64 ((x mod 4) * 16), CHR ''='', CHR ''=''])"
| "base64_encode [] = []"

fun index_of :: "'a \<Rightarrow> 'a list \<Rightarrow> nat option" where
  "index_of c [] = None"
| "index_of c (x # xs) = (if x = c then Some 0 else map_option Suc (index_of c xs))"

definition unbase64 :: "char \<Rightarrow> nat option" where
  "unbase64 c =
     (if c = CHR ''-'' then Some 62 else if c = CHR ''_'' then Some 63
      else index_of c b64chars)"

fun b64_sextets :: "string \<Rightarrow> nat list" where
  "b64_sextets [] = []"
| "b64_sextets (c # cs) =
     (if c = CHR ''='' then []
      else case unbase64 c of Some v \<Rightarrow> v # b64_sextets cs | None \<Rightarrow> b64_sextets cs)"

fun sextets_to_bytes :: "nat list \<Rightarrow> buffer" where
  "sextets_to_bytes (s1 # s2 # s3 # s4 # rest) =
     [of_nat (s1 * 4 + s2 div 16), of_nat ((s2 mod 16) * 16 + s3 div 4),
      of_nat ((s3 mod 4) * 64 + s4)] @ sextets_to_bytes rest"
| "sextets_to_bytes [s1, s2, s3] =
     [of_nat (s1 * 4 + s2 div 16), of_nat ((s2 mod 16) * 16 + s3 div 4)]"
| "sextets_to_bytes [s1, s2] = [of_nat (s1 * 4 + s2 div 16)]"
| "sextets_to_bytes [s1] = []"
| "sextets_to_bytes [] = []"

definition base64_decode :: "string \<Rightarrow> buffer" where
  "base64_decode s = sextets_to_bytes (b64_sextets s)"

section \<open>Errors and external collaborators\<close>

text \<open>
  What the upstream client can throw: an \<open>OpenAI.APIError\<close> with its \<open>status\<close>
  (possibly \<open>undefined\<close>) and \<open>message\<close>, or some other error with a message.
\<close>

datatype upstream_error = APIError "nat option" string | OtherError string

fun upstream_message :: "upstream_error \<Rightarrow> string" where
  "upstream_message (APIError st m) = m"
| "upstream_message (OtherError m) = m"

text \<open>
  The message of an \<open>APIError\<close> is built by the client (openai 4.67.0,
  \<open>APIError.makeMessage\<close>) from the status and the text of the failed response:
  \<open>`${status} ${msg}`\<close> when both are there, \<open>`${status} status code (no body)`\<close>
  with a status only, the text alone without a status.
\<close>

definition message_without_status :: "string option \<Rightarrow> string" where
  "message_without_status msg =
     (case msg of
        None \<Rightarrow> ''(no status or body)''
      | Some t \<Rightarrow> if t \<noteq> [] then t else ''(no status or body)'')"

definition makeMessage :: "nat option \<Rightarrow> string option \<Rightarrow> string" where
  "makeMessage status msg =
     (case status of
        None \<Rightarrow> message_without_status msg
      | Some k \<Rightarrow>
          if k = 0 then message_without_status msg
          else (case msg of
                  None \<Rightarrow> show_nat k @ '' status code (no body)''
                | Some t \<Rightarrow>
                    if t \<noteq> [] then show_nat k @ '' '' @ t
                    else show_nat k @ '' status code (no body)''))"

datatype errcode = InvalidParams | InternalError | MethodNotFound

datatype js_error =
    ZodError "issue list"
  | Upstream upstream_error
  | PlainError string
  | TypeError string
  | McpError errcode string

text \<open>
  \<open>fetch\<close>: a rejection (a \<open>TypeError\<close>, for a network failure) with its message, or
  a response.
\<close>

datatype fetch_result =
    FetchFails string
  | FetchResponse (resp_ok: bool) (resp_status: nat) (resp_statusText: string) (resp_body: buffer)

type_synonym fetcher = "string \<Rightarrow> fetch_result"

text \<open>
  \<open>Buffer.from(x, "base64")\<close>: total on strings; a \<open>TypeError\<close> when the first
  argument is \<open>undefined\<close>.
\<close>

definition Buffer_from_base64 :: "string option \<Rightarrow> js_error + buffer" where
  "Buffer_from_base64 x =
     (case x of
        None \<Rightarrow> Inl (TypeError ''The first argument must be of type string or an instance of Buffer, ArrayBuffer, or Array or an Array-like Object. Received undefined'')
      | Some s \<Rightarrow> Inr (base64_decode s))"

section \<open>utils.ts: image decoding\<close>

fun strip_prefix :: "string \<Rightarrow> string \<Rightarrow> string option" where
  "strip_prefix [] s = Some s"
| "strip_prefix (c # cs) [] = None"
| "strip_prefix (c # cs) (d # ds) = (if c = d then strip_prefix cs ds else None)"

definition startsWith :: "string \<Rightarrow> string \<Rightarrow> bool" where
  "startsWith s pre = is_prefix pre s"

text \<open>
  The regular expression \<open>/^data:image\/([a-zA-Z+]+);base64,(.+)$/\<close>. The class of the
  first group does not contain \<open>;\<close>, so the greedy run of class characters is the only
  candidate for it; \<open>.\<close> excludes the line terminators.
\<close>

definition is_format_char :: "char \<Rightarrow> bool" where
  "is_format_char c =
     (let k = (of_char c :: nat)
      in (97 \<le> k \<and> k \<le> 122) \<or> (65 \<le> k \<and> k \<le> 90) \<or> c = CHR ''+'')"

definition is_line_terminator :: "char \<Rightarrow> bool" where
  "is_line_terminator c = (c = CHR 0x0A \<or> c = CHR 0x0D)"

definition match_data_url :: "string \<Rightarrow> (string \<times> string) option" where
  "match_data_url s =
     (case strip_prefix ''data:image/'' s of
        None \<Rightarrow> None
      | Some rest \<Rightarrow>
          (let format = takeWhile is_format_char rest
           in if format = [] then None
              else case strip_prefix '';base64,'' (dropWhile is_format_char rest) of
                     None \<Rightarrow> None
                   | Some base64Data \<Rightarrow>
                       if base64Data \<noteq> [] \<and> \<not> list_ex is_line_terminator base64Data
                       then Some (format, base64Data) else None))"

text \<open>
  \<open>imageToBuffer\<close> of the utilities. The \<open>throw\<close> for a response that is not ok sits
  inside the \<open>try\<close>, so the \<open>catch\<close> wraps its message once more.
\<close>

definition imageToBuffer :: "fetcher \<Rightarrow> string \<Rightarrow> js_error + buffer" where
  "imageToBuffer fetch imageData =
     (if startsWith imageData ''http://'' \<or> startsWith imageData ''https://'' then
        (case fetch imageData of
           FetchFails m \<Rightarrow> Inl (PlainError (''Error fetching image from URL: '' @ m))
         | FetchResponse ok status statusText body \<Rightarrow>
             if \<not> ok
             then Inl (PlainError (''Error fetching image from URL: '' @
                    (''Failed to fetch image from URL: '' @ show_nat status @ '' '' @ statusText)))
             else Inr body)
      else if startsWith imageData ''data:image'' then
        (case match_data_url imageData of
           None \<Rightarrow> Inl (PlainError ''Invalid data URL format'')
         | Some (format, base64Data) \<Rightarrow>
             if format \<noteq> ''png''
             then Inl (PlainError (''Unsupported image format: '' @ format @ ''. Only PNG is supported.''))
             else Buffer_from_base64 (Some base64Data))
      else
        (case Buffer_from_base64 (Some imageData) of
           Inl e \<Rightarrow> Inl (PlainError ''Invalid base64 image data'')
         | Inr buf \<Rightarrow> Inr buf))"

definition bufferToDataURL :: "buffer \<Rightarrow> string \<Rightarrow> string" where
  "bufferToDataURL buf mimeType = ''data:'' @ mimeType @ '';base64,'' @ base64_encode buf"

section \<open>The six-tool server (second half of src/src/types.ts)\<close>

subsection \<open>Schemas\<close>

text \<open>
  A \<open>z.object({...})\<close> schema is given by its shape; \<open>Schema.parse(args)\<close> throws a
  \<open>ZodError\<close> with all issues or returns the parsed object.
\<close>

definition schema_parse :: "(string \<times> zschema) list \<Rightarrow> json option \<Rightarrow> js_error + (string \<times> json) list" where
  "schema_parse shape args =
     (case args of
        Some (JObj kvs) \<Rightarrow>
          if object_issues shape kvs = [] then Inr (object_output shape kvs)
          else Inl (ZodError (object_issues shape kvs))
      | _ \<Rightarrow> Inl (ZodError [invalid_type ''object'' args]))"

definition ChatMessageSchema :: "(string \<times> zschema) list" where
  "ChatMessageSchema =
     [(''role'', z_enum [''system'', ''user'', ''assistant'', ''function'', ''tool'']),
      (''content'', z_string),
      (''name'', z_optional z_string)]"

definition ChatCompletionSchema :: "(string \<times> zschema) list" where
  "ChatCompletionSchema =
     [(''model'', z_default z_string (JStr ''gpt-4o'')),
      (''messages'', z_array (z_object ChatMessageSchema)),
      (''temperature'', z_default (z_optional (z_number [Min 0, Max 2])) (JNum 1)),
      (''max_tokens'', z_optional (z_number [Positive])),
      (''top_p'', z_optional (z_number [Min 0, Max 1])),
      (''frequency_penalty'', z_optional (z_number [Min (- 2), Max 2])),
      (''presence_penalty'', z_optional (z_number [Min (- 2), Max 2])),
      (''n'', z_default (z_optional (z_number [Positive])) (JNum 1)),
      (''stream'', z_default (z_optional z_boolean) (JBool False)),
      (''stop'', z_optional (z_union [z_string, z_array z_string])),
      (''user'', z_optional z_string)]"

definition CreateEmbeddingSchema :: "(string \<times> zschema) list" where
  "CreateEmbeddingSchema =
     [(''model'', z_default z_string (JStr ''text-embedding-3-small'')),
      (''input'', z_union [z_string, z_array z_string]),
      (''encoding_format'', z_optional (z_enum [''float'', ''base64''])),
      (''dimensions'', z_optional (z_number [Positive])),
      (''user'', z_optional z_string)]"

definition GenerateImageSchema :: "(string \<times> zschema) list" where
  "GenerateImageSchema =
     [(''prompt'', z_string_max 4000),
      (''model'', z_default (z_enum [''dall-e-2'', ''dall-e-3'']) (JStr ''dall-e-3'')),
      (''n'', z_default (z_optional (z_number [Min 1, Max 10])) (JNum 1)),
      (''quality'', z_default (z_optional (z_enum [''standard'', ''hd''])) (JStr ''standard'')),
      (''response_format'', z_default (z_optional (z_enum [''url'', ''b64_json''])) (JStr ''url'')),
      (''size'', z_default (z_optional (z_enum
          [''256x256'', ''512x512'', ''1024x1024'', ''1792x1024'', ''1024x1792''])) (JStr ''1024x1024'')),
      (''style'', z_default (z_optional (z_enum [''vivid'', ''natural''])) (JStr ''vivid'')),
      (''user'', z_optional z_string)]"

definition EditImageSchema :: "(string \<times> zschema) list" where
  "EditImageSchema =
     [(''image'', z_string),
      (''mask'', z_optional z_string),
      (''prompt'', z_string_max 4000),
      (''model'', z_default (z_enum [''dall-e-2'']) (JStr ''dall-e-2'')),
      (''n'', z_default (z_optional (z_number [Min 1, Max 10])) (JNum 1)),
      (''size'', z_default (z_optional (z_enum [''256x256'', ''512x512'', ''1024x1024''])) (JStr ''1024x1024'')),
      (''response_format'', z_default (z_optional (z_enum [''url'', ''b64_json''])) (JStr ''url'')),
      (''user'', z_optional z_string)]"

definition CreateImageVariationSchema :: "(string \<times> zschema) list" where
  "CreateImageVariationSchema =
     [(''image'', z_string),
      (''model'', z_default (z_enum [''dall-e-2'']) (JStr ''dall-e-2'')),
      (''n'', z_default (z_optional (z_number [Min 1, Max 10])) (JNum 1)),
      (''response_format'', z_default (z_optional (z_enum [''url'', ''b64_json''])) (JStr ''url'')),
      (''size'', z_default (z_optional (z_enum [''256x256'', ''512x512'', ''1024x1024''])) (JStr ''1024x1024'')),
      (''user'', z_optional z_string)]"

subsection \<open>The server's own image helper\<close>

text \<open>\<open>s.split(",")\<close> and the element at index 1 (\<open>undefined\<close> when there is none).\<close>

fun split_on :: "char \<Rightarrow> string \<Rightarrow> string list" where
  "split_on sep [] = [[]]"
| "split_on sep (c # cs) =
     (if c = sep then [] # split_on sep cs
      else case split_on sep cs of [] \<Rightarrow> [[c]] | piece # pieces \<Rightarrow> (c # piece) # pieces)"

definition second_piece :: "string list \<Rightarrow> string option" where
  "second_piece pieces = (case pieces of a # b # rest \<Rightarrow> Some b | _ \<Rightarrow> None)"

definition imageToBuffer_local :: "fetcher \<Rightarrow> string \<Rightarrow> js_error + buffer" where
  "imageToBuffer_local fetch imageData =
     (if startsWith imageData ''http://'' \<or> startsWith imageData ''https://'' then
        (case fetch imageData of
           FetchFails m \<Rightarrow> Inl (TypeError m)
         | FetchResponse ok status statusText body \<Rightarrow>
             if \<not> ok then Inl (PlainError (''Failed to fetch image from URL: '' @ statusText))
             else Inr body)
      else if startsWith imageData ''data:image'' then
        Buffer_from_base64 (second_piece (split_on CHR '','' imageData))
      else Buffer_from_base64 (Some imageData))"

subsection \<open>The tool-call handler\<close>

text \<open>
  The requests the handler sends to the upstream client. File attachments are the decoded
  buffers (named \<open>image.png\<close> and \<open>mask.png\<close>, of type \<open>image/png\<close>).
\<close>

datatype api_request =
    ChatCompletionsCreate "(string \<times> json) list"
  | EmbeddingsCreate "(string \<times> json) list"
  | ImagesGenerate "(string \<times> json) list"
  | ImagesEdit buffer "buffer option" "(string \<times> json) list"
  | ImagesCreateVariation buffer "(string \<times> json) list"
  | ModelsList
  | ModerationsCreate "(string \<times> json) list"

type_synonym upstream = "api_request \<Rightarrow> upstream_error + json"

text \<open>Truthiness and comparisons of property values, as the checks of the handler use them.\<close>

fun js_truthy :: "json option \<Rightarrow> bool" where
  "js_truthy None = False"
| "js_truthy (Some JNull) = False"
| "js_truthy (Some (JBool b)) = b"
| "js_truthy (Some (JNum v)) = (v \<noteq> 0)"
| "js_truthy (Some (JStr s)) = (s \<noteq> [])"
| "js_truthy (Some (JArr xs)) = True"
| "js_truthy (Some (JObj kvs)) = True"

fun num_greater :: "json option \<Rightarrow> real \<Rightarrow> bool" where
  "num_greater (Some (JNum v)) b = (v > b)"
| "num_greater _ b = False"

fun array_includes :: "string list \<Rightarrow> json option \<Rightarrow> bool" where
  "array_includes xs (Some (JStr s)) = List.member xs s"
| "array_includes xs _ = False"

text \<open>Object literals: a property whose value is \<open>undefined\<close> is not serialised.\<close>

definition pick :: "string list \<Rightarrow> (string \<times> json) list \<Rightarrow> (string \<times> json) list" where
  "pick keys params =
     concat (map (\<lambda>k. case map_of params k of None \<Rightarrow> [] | Some v \<Rightarrow> [(k, v)]) keys)"

definition string_prop :: "(string \<times> json) list \<Rightarrow> string \<Rightarrow> string" where
  "string_prop params k = (case map_of params k of Some (JStr s) \<Rightarrow> s | _ \<Rightarrow> [])"

text \<open>The model checks of the \<open>generate_image\<close> case: each violated rule throws at once.\<close>

definition generate_image_checks :: "(string \<times> json) list \<Rightarrow> js_error + unit" where
  "generate_image_checks params =
     (let dalle3 = (map_of params ''model'' = Some (JStr ''dall-e-3''));
          dalle2 = (map_of params ''model'' = Some (JStr ''dall-e-2''))
      in if dalle3 \<and> js_truthy (map_of params ''n'') \<and> num_greater (map_of params ''n'') 1
         then Inl (PlainError ''DALL-E 3 only supports n=1'')
         else if dalle3 \<and> js_truthy (map_of params ''size'')
                 \<and> \<not> array_includes [''1024x1024'', ''1792x1024'', ''1024x1792''] (map_of params ''size'')
         then Inl (PlainError ''DALL-E 3 only supports sizes: 1024x1024, 1792x1024, 1024x1792'')
         else if dalle2 \<and> map_of params ''quality'' = Some (JStr ''hd'')
         then Inl (PlainError ''DALL-E 2 does not support 'hd' quality'')
         else if dalle2 \<and> js_truthy (map_of params ''style'')
         then Inl (PlainError ''DALL-E 2 does not support 'style' parameter'')
         else if dalle2 \<and> js_truthy (map_of params ''size'')
                 \<and> \<not> array_includes [''256x256'', ''512x512'', ''1024x1024''] (map_of params ''size'')
         then Inl (PlainError ''DALL-E 2 only supports sizes: 256x256, 512x512, 1024x1024'')
         else Inr ())"

text \<open>
  Everything a tool case does before it calls the upstream client: the result is the
  error thrown on the way or the request that is sent.
\<close>

definition edit_image_request :: "fetcher \<Rightarrow> (string \<times> json) list \<Rightarrow> js_error + api_request" where
  "edit_image_request fetch params =
     (case imageToBuffer_local fetch (string_prop params ''image'') of
        Inl e \<Rightarrow> Inl e
      | Inr imageBuffer \<Rightarrow>
          (let editParams = pick [''prompt'', ''model'', ''n'', ''size'', ''response_format'', ''user''] params
           in if js_truthy (map_of params ''mask'') then
                (case imageToBuffer_local fetch (string_prop params ''mask'') of
                   Inl e \<Rightarrow> Inl e
                 | Inr maskBuffer \<Rightarrow> Inr (ImagesEdit imageBuffer (Some maskBuffer) editParams))
              else Inr (ImagesEdit imageBuffer None editParams)))"

definition variation_request :: "fetcher \<Rightarrow> (string \<times> json) list \<Rightarrow> js_error + api_request" where
  "variation_request fetch params =
     (case imageToBuffer_local fetch (string_prop params ''image'') of
        Inl e \<Rightarrow> Inl e
      | Inr imageBuffer \<Rightarrow>
          Inr (ImagesCreateVariation imageBuffer
                 (pick [''model'', ''n'', ''response_format'', ''size'', ''user''] params)))"

definition tool_request :: "fetcher \<Rightarrow> string \<Rightarrow> json option \<Rightarrow> js_error + api_request" where
  "tool_request fetch name args =
     (if name = ''chat_completion'' then
        (case schema_parse ChatCompletionSchema args of
           Inl e \<Rightarrow> Inl e | Inr params \<Rightarrow> Inr (ChatCompletionsCreate params))
      else if name = ''create_embedding'' then
        (case schema_parse CreateEmbeddingSchema args of
           Inl e \<Rightarrow> Inl e | Inr params \<Rightarrow> Inr (EmbeddingsCreate params))
      else if name = ''generate_image'' then
        (case schema_parse GenerateImageSchema args of
           Inl e \<Rightarrow> Inl e
         | Inr params \<Rightarrow>
             (case generate_image_checks params of
                Inl e \<Rightarrow> Inl e | Inr _ \<Rightarrow> Inr (ImagesGenerate params)))
      else if name = ''edit_image'' then
        (case schema_parse EditImageSchema args of
           Inl e \<Rightarrow> Inl e | Inr params \<Rightarrow> edit_image_request fetch params)
      else if name = ''create_image_variation'' then
        (case schema_parse CreateImageVariationSchema args of
           Inl e \<Rightarrow> Inl e | Inr params \<Rightarrow> variation_request fetch params)
      else if name = ''list_models'' then Inr ModelsList
      else Inl (PlainError (''Unknown tool: '' @ name)))"

text \<open>The \<open>catch\<close> block: zod and API errors are rewritten, anything else is rethrown.\<close>

definition show_status :: "nat option \<Rightarrow> string" where
  "show_status st = (case st of None \<Rightarrow> ''undefined'' | Some k \<Rightarrow> show_nat k)"

fun rethrow :: "js_error \<Rightarrow> js_error" where
  "rethrow (ZodError issues) = PlainError (''Invalid input parameters: '' @ format_issues issues)"
| "rethrow (Upstream (APIError st m)) =
     PlainError (''OpenAI API error ('' @ show_status st @ ''): '' @ m)"
| "rethrow e = e"

text \<open>The reply \<open>{content: [{type: "text", text: JSON.stringify(result, null, 2)}]}\<close>.\<close>

datatype tool_reply = TextContent json

definition callTool :: "upstream \<Rightarrow> fetcher \<Rightarrow> string \<Rightarrow> json option \<Rightarrow> js_error + tool_reply" where
  "callTool api fetch name args =
     (case tool_request fetch name args of
        Inl e \<Rightarrow> Inl (rethrow e)
      | Inr req \<Rightarrow>
          (case api req of
             Inl e \<Rightarrow> Inl (rethrow (Upstream e))
           | Inr result \<Rightarrow> Inr (TextContent result)))"

section \<open>The four-tool server (src/src/index.ts)\<close>

definition ChatMessageArgsSchema :: "(string \<times> zschema) list" where
  "ChatMessageArgsSchema =
     [(''role'', z_enum [''system'', ''user'', ''assistant'']),
      (''content'', z_string)]"

definition ChatCompletionArgsSchema :: "(string \<times> zschema) list" where
  "ChatCompletionArgsSchema =
     [(''messages'', z_array (z_object ChatMessageArgsSchema)),
      (''model'', z_default z_string (JStr ''gpt-4o'')),
      (''temperature'', z_default (z_optional (z_number [Min 0, Max 2])) (JNum (7 / 10))),
      (''max_tokens'', z_optional (z_number [Positive])),
      (''top_p'', z_optional (z_number [Min 0, Max 1])),
      (''frequency_penalty'', z_optional (z_number [Min (- 2), Max 2])),
      (''presence_penalty'', z_optional (z_number [Min (- 2), Max 2]))]"

definition GenerateEmbeddingsArgsSchema :: "(string \<times> zschema) list" where
  "GenerateEmbeddingsArgsSchema =
     [(''input'', z_union [z_string, z_array z_string]),
      (''model'', z_default z_string (JStr ''text-embedding-3-small'')),
      (''encoding_format'', z_optional (z_enum [''float'', ''base64''])),
      (''dimensions'', z_optional (z_number [Positive]))]"

definition ModerateContentArgsSchema :: "(string \<times> zschema) list" where
  "ModerateContentArgsSchema =
     [(''input'', z_union [z_string, z_array z_string]),
      (''model'', z_default z_string (JStr ''omni-moderation-latest''))]"

definition tool_request_index :: "string \<Rightarrow> json option \<Rightarrow> js_error + api_request" where
  "tool_request_index name args =
     (if name = ''chat_completion'' then
        (case schema_parse ChatCompletionArgsSchema args of
           Inl e \<Rightarrow> Inl e
         | Inr validatedArgs \<Rightarrow>
             Inr (ChatCompletionsCreate
                    (pick [''model'', ''messages'', ''temperature'', ''max_tokens'', ''top_p'',
                           ''frequency_penalty'', ''presence_penalty''] validatedArgs)))
      else if name = ''generate_embeddings'' then
        (case schema_parse GenerateEmbeddingsArgsSchema args of
           Inl e \<Rightarrow> Inl e
         | Inr validatedArgs \<Rightarrow>
             Inr (EmbeddingsCreate
                    (pick [''model'', ''input'', ''encoding_format'', ''dimensions''] validatedArgs)))
      else if name = ''list_models'' then Inr ModelsList
      else if name = ''moderate_content'' then
        (case schema_parse ModerateContentArgsSchema args of
           Inl e \<Rightarrow> Inl e
         | Inr validatedArgs \<Rightarrow> Inr (ModerationsCreate (pick [''model'', ''input''] validatedArgs)))
      else Inl (McpError MethodNotFound (''Unknown tool: '' @ name)))"

text \<open>
  The reduced projection of a response is computed inside the same \<open>try\<close> as the
  upstream call; \<open>project\<close> stands for it and gives the message of the error it throws
  (a property read on \<open>undefined\<close>) or the projected value.
\<close>

type_synonym projector = "api_request \<Rightarrow> json \<Rightarrow> string + json"

fun rethrow_index :: "js_error \<Rightarrow> js_error" where
  "rethrow_index (ZodError issues) = McpError InvalidParams (''Invalid parameters: '' @ format_issues issues)"
| "rethrow_index e = e"

definition callTool_index :: "upstream \<Rightarrow> projector \<Rightarrow> string \<Rightarrow> json option \<Rightarrow> js_error + tool_reply" where
  "callTool_index api project name args =
     (case tool_request_index name args of
        Inl e \<Rightarrow> Inl (rethrow_index e)
      | Inr req \<Rightarrow>
          (case api req of
             Inl e \<Rightarrow> Inl (rethrow_index (McpError InternalError (''OpenAI API error: '' @ upstream_message e)))
           | Inr result \<Rightarrow>
               (case project req result of
                  Inl m \<Rightarrow> Inl (rethrow_index (McpError InternalError (''OpenAI API error: '' @ m)))
                | Inr shown \<Rightarrow> Inr (TextContent shown))))"

section \<open>Notions used to state the properties\<close>

text \<open>
  The parameter object that \<open>validateDALLEParams\<close> receives when it is called on the parsed
  parameters of \<open>generate_image\<close>.
\<close>

definition string_opt :: "json option \<Rightarrow> string option" where
  "string_opt v = (case v of Some (JStr s) \<Rightarrow> Some s | _ \<Rightarrow> None)"

definition number_opt :: "json option \<Rightarrow> real option" where
  "number_opt v = (case v of Some (JNum x) \<Rightarrow> Some x | _ \<Rightarrow> None)"

definition dalle_params_of :: "(string \<times> json) list \<Rightarrow> dalle_params" where
  "dalle_params_of params =
     \<lparr>p_model = string_prop params ''model'',
      p_size = string_opt (map_of params ''size''),
      p_quality = string_opt (map_of params ''quality''),
      p_style = string_opt (map_of params ''style''),
      p_n = number_opt (map_of params ''n'')\<rparr>"

text \<open>A \<open>ChatMessage\<close> of types.ts as the JSON object a caller sends.\<close>

record ChatMessage =
  role :: string
  content :: string
  name :: "string option"

definition message_json :: "ChatMessage \<Rightarrow> json" where
  "message_json m =
     JObj ([(''role'', JStr (role m)), (''content'', JStr (content m))]
           @ (case name m of None \<Rightarrow> [] | Some x \<Rightarrow> [(''name'', JStr x)]))"

text \<open>An argument object passes a schema when parsing it raises no issue.\<close>

definition accepts :: "(string \<times> zschema) list \<Rightarrow> (string \<times> json) list \<Rightarrow> bool" where
  "accepts shape kvs = (object_issues shape kvs = [])"

text \<open>
  A numeric field \<open>f\<close> of a schema has the inclusive bounds \<open>lo\<close> and \<open>hi\<close>: in an
  argument object that passes, setting \<open>f\<close> to either bound still passes; with \<open>f\<close>
  set to a number below \<open>lo\<close> or above \<open>hi\<close> the object is rejected, with an issue
  at path \<open>f\<close>, and the message both handlers build from the issues names \<open>f\<close>.
\<close>

definition inclusive_bounds :: "(string \<times> zschema) list \<Rightarrow> string \<Rightarrow> int \<Rightarrow> int \<Rightarrow> bool" where
  "inclusive_bounds shape f lo hi =
     ((\<forall>kvs. accepts shape kvs \<longrightarrow>
          accepts shape (AList.update f (JNum (of_int lo)) kvs)
          \<and> accepts shape (AList.update f (JNum (of_int hi)) kvs))
      \<and> (\<forall>kvs v. v < of_int lo \<or> of_int hi < v \<longrightarrow>
          \<not> accepts shape (AList.update f (JNum v) kvs)
          \<and> (\<exists>msg. ([Key f], msg) \<in> set (object_issues shape (AList.update f (JNum v) kvs)))
          \<and> js_includes (format_issues (object_issues shape (AList.update f (JNum v) kvs)))
                (f @ '': Number must be '')))"

text \<open>Fixed collaborators for closed examples: no network, and an upstream that fails or answers.\<close>

definition no_network :: fetcher where
  "no_network url = FetchFails ''fetch failed''"

definition upstream_unauthorized :: upstream where
  "upstream_unauthorized req =
     Inl (APIError (Some 401) (makeMessage (Some 401) (Some ''Incorrect API key provided'')))"

definition upstream_null :: upstream where
  "upstream_null req = Inr JNull"

definition project_id :: projector where
  "project_id req result = Inr result"

section \<open>Properties\<close>

lemma is_prefix_append: "is_prefix t (t @ s)"
  by (induction t) auto

lemma is_prefix_iff: "is_prefix t s \<longleftrightarrow> (\<exists>r. s = t @ r)"
  by (induction t s rule: is_prefix.induct) auto

lemma js_includes_append: "js_includes (pre @ t @ post) t"
proof (induction pre)
  case Nil
  show ?case
  proof (cases "t @ post")
    case Nil
    then show ?thesis by simp
  next
    case (Cons c cs)
    have "is_prefix t (t @ post)" by (rule is_prefix_append)
    then show ?thesis using Cons by simp
  qed
next
  case (Cons a pre)
  then show ?case by simp
qed

text \<open>
  Claim C8. \<open>validatePNGFormat\<close> is true exactly when the first eight bytes of the buffer
  are the PNG signature 89 50 4E 47 0D 0A 1A 0A, and false for every buffer of fewer than
  eight bytes.
\<close>

theorem validatePNGFormat_iff_signature:
  "(validatePNGFormat buf \<longleftrightarrow> take 8 buf = [0x89, 0x50, 0x4e, 0x47, 0x0d, 0x0a, 0x1a, 0x0a])
   \<and> (length buf < 8 \<longrightarrow> \<not> validatePNGFormat buf)"
proof -
  have "validatePNGFormat buf \<longleftrightarrow> take 8 buf = [0x89, 0x50, 0x4e, 0x47, 0x0d, 0x0a, 0x1a, 0x0a]"
  proof (cases "length buf < 8")
    case True
    then have "length (take 8 buf) \<noteq> 8" by simp
    moreover have "length [0x89, 0x50, 0x4e, 0x47, 0x0d, 0x0a, 0x1a, 0x0a :: byte] = 8" by simp
    ultimately have "take 8 buf \<noteq> [0x89, 0x50, 0x4e, 0x47, 0x0d, 0x0a, 0x1a, 0x0a]"
      by metis
    with True show ?thesis by (simp add: validatePNGFormat_def)
  next
    case False
    then show ?thesis by (simp add: validatePNGFormat_def pngSignature_def)
  qed
  moreover have "length buf < 8 \<longrightarrow> \<not> validatePNGFormat buf"
    by (simp add: validatePNGFormat_def)
  ultimately show ?thesis by blast
qed

theorem validatePNGFormat_iff_signature_witness:
  "validatePNGFormat [0x89, 0x50, 0x4e, 0x47, 0x0d, 0x0a, 0x1a, 0x0a, 0x00, 0x00, 0x00, 0x0d]
   \<and> length [0x89, 0x50 :: byte] < 8 \<and> \<not> validatePNGFormat [0x89, 0x50]"
  using validatePNGFormat_iff_signature [of "[0x89, 0x50, 0x4e, 0x47, 0x0d, 0x0a, 0x1a, 0x0a, 0x00, 0x00, 0x00, 0x0d]"]
    validatePNGFormat_iff_signature [of "[0x89, 0x50]"]
  by simp

subsection \<open>The model-constraint table\<close>

lemmas dalle_defs = validateDALLEParams_def validateDALLEParams_errors_def n_above_one_def
  size_not_in_def truthy_str_def truthy_num_def dalle3_sizes_def dalle2_sizes_def
  msg_d3_n_def msg_d3_size_def msg_d2_hd_def msg_d2_style_def msg_d2_size_def

lemmas zod_defs = schema_parse_def object_issues_def object_output_def sub_issues_def sub_output_def
  z_string_def z_string_max_def z_boolean_def z_number_def z_enum_def z_optional_def z_default_def
  z_array_def z_object_def invalid_type_def enum_expected_def

lemmas handler_defs = tool_request_def generate_image_checks_def edit_image_request_def
  variation_request_def pick_def string_prop_def

text \<open>
  Claim C1. The rule table on its test points: \<open>dall-e-3\<close> with \<open>n = 2\<close> gives an error
  that contains \<open>n=1\<close>; \<open>dall-e-3\<close> with size \<open>512x512\<close> gives the size error;
  \<open>dall-e-2\<close> with quality \<open>hd\<close> gives the quality error; \<open>dall-e-2\<close> with style
  \<open>vivid\<close> gives the style error; \<open>dall-e-3\<close> with \<open>n = 1\<close>, size \<open>1024x1024\<close>,
  quality \<open>hd\<close> and style \<open>natural\<close> gives no error. The checks of the
  \<open>generate_image\<close> case of the handler agree on the same points.
\<close>

theorem validateDALLEParams_rule_table:
  "validateDALLEParams \<lparr>p_model = ''dall-e-3'', p_size = None, p_quality = None, p_style = None, p_n = Some 2\<rparr>
     = (False, [''DALL-E 3 only supports n=1''])
   \<and> js_includes ''DALL-E 3 only supports n=1'' ''n=1''
   \<and> validateDALLEParams \<lparr>p_model = ''dall-e-3'', p_size = Some ''512x512'', p_quality = None, p_style = None, p_n = None\<rparr>
     = (False, [''DALL-E 3 only supports sizes: 1024x1024, 1792x1024, 1024x1792''])
   \<and> validateDALLEParams \<lparr>p_model = ''dall-e-2'', p_size = None, p_quality = Some ''hd'', p_style = None, p_n = None\<rparr>
     = (False, [''DALL-E 2 does not support 'hd' quality''])
   \<and> validateDALLEParams \<lparr>p_model = ''dall-e-2'', p_size = None, p_quality = None, p_style = Some ''vivid'', p_n = None\<rparr>
     = (False, [''DALL-E 2 does not support 'style' parameter''])
   \<and> validateDALLEParams \<lparr>p_model = ''dall-e-3'', p_size = Some ''1024x1024'', p_quality = Some ''hd'',
         p_style = Some ''natural'', p_n = Some 1\<rparr> = (True, [])
   \<and> generate_image_checks [(''model'', JStr ''dall-e-3''), (''n'', JNum 2)]
     = Inl (PlainError ''DALL-E 3 only supports n=1'')
   \<and> generate_image_checks [(''model'', JStr ''dall-e-3''), (''size'', JStr ''512x512'')]
     = Inl (PlainError ''DALL-E 3 only supports sizes: 1024x1024, 1792x1024, 1024x1792'')
   \<and> generate_image_checks [(''model'', JStr ''dall-e-2''), (''quality'', JStr ''hd'')]
     = Inl (PlainError ''DALL-E 2 does not support 'hd' quality'')
   \<and> generate_image_checks [(''model'', JStr ''dall-e-2''), (''style'', JStr ''vivid'')]
     = Inl (PlainError ''DALL-E 2 does not support 'style' parameter'')
   \<and> generate_image_checks [(''model'', JStr ''dall-e-3''), (''n'', JNum 1), (''size'', JStr ''1024x1024''),
         (''quality'', JStr ''hd''), (''style'', JStr ''natural'')] = Inr ()"
  by (simp add: dalle_defs generate_image_checks_def)

subsection \<open>Base64 and data URLs\<close>

lemma distinct_b64chars: "distinct b64chars"
  by (simp add: b64chars_def)

lemma length_b64chars: "length b64chars = 64"
  by (simp add: b64chars_def)

lemma index_of_nth: "distinct xs \<Longrightarrow> k < length xs \<Longrightarrow> index_of (xs ! k) xs = Some k"
proof (induction xs arbitrary: k)
  case Nil
  then show ?case by simp
next
  case (Cons x xs)
  show ?case
  proof (cases k)
    case 0
    then show ?thesis by simp
  next
    case (Suc j)
    with Cons.prems have "xs ! j \<in> set xs" "x \<notin> set xs" by auto
    then have "x \<noteq> xs ! j" by auto
    with Cons Suc show ?thesis by simp
  qed
qed

lemma b64_in_chars: "k < 64 \<Longrightarrow> b64 k \<in> set b64chars"
  by (simp add: b64_def length_b64chars)

lemma b64_not_special:
  assumes "k < 64"
  shows "b64 k \<noteq> CHR ''=''" "b64 k \<noteq> CHR ''-''" "b64 k \<noteq> CHR ''_''"
    "b64 k \<noteq> CHR '',''" "\<not> is_line_terminator (b64 k)"
proof -
  have "CHR ''='' \<notin> set b64chars" "CHR ''-'' \<notin> set b64chars" "CHR ''_'' \<notin> set b64chars"
    "CHR '','' \<notin> set b64chars" "CHR 0x0A \<notin> set b64chars" "CHR 0x0D \<notin> set b64chars"
    by (simp_all add: b64chars_def)
  with b64_in_chars [OF assms]
  show "b64 k \<noteq> CHR ''=''" "b64 k \<noteq> CHR ''-''" "b64 k \<noteq> CHR ''_''"
    "b64 k \<noteq> CHR '',''" "\<not> is_line_terminator (b64 k)"
    by (auto simp: is_line_terminator_def)
qed

lemma unbase64_b64: "k < 64 \<Longrightarrow> unbase64 (b64 k) = Some k"
  using b64_not_special [of k] index_of_nth [OF distinct_b64chars, of k]
  by (simp add: unbase64_def b64_def length_b64chars)

lemma b64_sextets_b64: "k < 64 \<Longrightarrow> b64_sextets (b64 k # cs) = k # b64_sextets cs"
  by (simp add: unbase64_b64 b64_not_special)

lemma unat_byte: "unat (a :: byte) < 256"
  using unsigned_less [of a, where ?'a = nat] by simp

lemma regroup1:
  assumes "y < 256"
  shows "(x div 4) * 4 + ((x mod 4) * 16 + y div 16) div 16 = (x :: nat)"
proof -
  from assms have q: "y div 16 < 16" by (simp add: less_mult_imp_div_less)
  then have "((x mod 4) * 16 + y div 16) div 16 = x mod 4" by simp
  then show ?thesis by simp
qed

lemma regroup2:
  assumes "y < 256" "z < 256"
  shows "(((x mod 4) * 16 + y div 16) mod 16) * 16 + ((y mod 16) * 4 + z div 64) div 4 = (y :: nat)"
proof -
  from assms have q: "y div 16 < 16" and r: "z div 64 < 4"
    by (simp_all add: less_mult_imp_div_less)
  from q have "((x mod 4) * 16 + y div 16) mod 16 = y div 16" by simp
  moreover from r have "((y mod 16) * 4 + z div 64) div 4 = y mod 16" by simp
  ultimately show ?thesis by simp
qed

lemma regroup3:
  assumes "z < 256"
  shows "(((y mod 16) * 4 + z div 64) mod 4) * 64 + z mod 64 = (z :: nat)"
proof -
  from assms have r: "z div 64 < 4" by (simp add: less_mult_imp_div_less)
  then have "((y mod 16) * 4 + z div 64) mod 4 = z div 64" by simp
  then show ?thesis by simp
qed

lemma regroup2': "y < 256 \<Longrightarrow> (((x mod 4) * 16 + y div 16) mod 16) * 16 + ((y mod 16) * 4) div 4 = (y :: nat)"
  using regroup2 [of y 0 x] by simp

lemma regroup1': "(x div 4) * 4 + ((x mod 4) * 16) div 16 = (x :: nat)"
  using regroup1 [of 0 x] by simp


lemma sextet_bounds:
  assumes "x < 256" "y < 256" "z < 256"
  shows "x div 4 < (64::nat)" "(x mod 4) * 16 + y div 16 < 64" "(y mod 16) * 4 + z div 64 < 64"
    "z mod 64 < 64" "(x mod 4) * 16 < 64" "(y mod 16) * 4 < 64"
proof -
  from assms have "x div 4 < 64" "y div 16 < 16" "z div 64 < 4"
    by (simp_all add: less_mult_imp_div_less)
  moreover have "x mod 4 < 4" "y mod 16 < 16" by simp_all
  ultimately show "x div 4 < (64::nat)" "(x mod 4) * 16 + y div 16 < 64"
    "(y mod 16) * 4 + z div 64 < 64" "z mod 64 < 64" "(x mod 4) * 16 < 64" "(y mod 16) * 4 < 64"
    by simp_all
qed

lemma b64_sextets_eq [simp]: "b64_sextets (CHR ''='' # cs) = []"
  by simp

lemma base64_roundtrip: "base64_decode (base64_encode bs) = bs"
  unfolding base64_decode_def
proof (induction bs rule: base64_encode.induct)
  case (1 a b c rest)
  define x y z where "x = unat a" and "y = unat b" and "z = unat c"
  have lt: "x < 256" "y < 256" "z < 256" by (simp_all add: x_def y_def z_def unat_byte)
  note sb = sextet_bounds [OF lt]
  have "b64_sextets (base64_encode (a # b # c # rest)) =
          x div 4 # ((x mod 4) * 16 + y div 16) # ((y mod 16) * 4 + z div 64) # z mod 64
            # b64_sextets (base64_encode rest)"
    using sb by (simp add: Let_def b64_sextets_b64 x_def y_def z_def del: b64_sextets.simps)
  then have "sextets_to_bytes (b64_sextets (base64_encode (a # b # c # rest))) =
      [of_nat x, of_nat y, of_nat z] @ sextets_to_bytes (b64_sextets (base64_encode rest))"
    using lt by (simp add: regroup1 regroup2 regroup3)
  then show ?case using 1 by (simp add: x_def y_def z_def)
next
  case (2 a b)
  define x y where "x = unat a" and "y = unat b"
  have lt: "x < 256" "y < 256" by (simp_all add: x_def y_def unat_byte)
  note sb = sextet_bounds [OF lt lt(1)]
  have "b64_sextets (base64_encode [a, b]) = [x div 4, (x mod 4) * 16 + y div 16, (y mod 16) * 4]"
    using sb by (simp add: Let_def b64_sextets_b64 x_def y_def del: b64_sextets.simps)
  then have "sextets_to_bytes (b64_sextets (base64_encode [a, b])) = [of_nat x, of_nat y]"
    using lt by (simp add: regroup1 regroup2')
  then show ?case by (simp add: x_def y_def)
next
  case (3 a)
  define x where "x = unat a"
  have lt: "x < 256" by (simp_all add: x_def unat_byte)
  note sb = sextet_bounds [OF lt lt lt]
  have "b64_sextets (base64_encode [a]) = [x div 4, (x mod 4) * 16]"
    using sb by (simp add: Let_def b64_sextets_b64 x_def del: b64_sextets.simps)
  then have "sextets_to_bytes (b64_sextets (base64_encode [a])) = [of_nat x]"
    by (simp add: regroup1')
  then show ?case by (simp add: x_def)
next
  case 4
  show ?case by simp
qed


lemma base64_encode_nonempty: "bs \<noteq> [] \<Longrightarrow> base64_encode bs \<noteq> []"
  by (induction bs rule: base64_encode.induct) (simp_all add: Let_def)

lemma base64_encode_alphabet:
  "c \<in> set (base64_encode bs) \<Longrightarrow> c \<in> set b64chars \<or> c = CHR ''=''"
proof (induction bs rule: base64_encode.induct)
  case (1 a b c' rest)
  have lt: "unat a < 256" "unat b < 256" "unat c' < 256" by (simp_all add: unat_byte)
  note sb = sextet_bounds [OF lt]
  from 1 sb show ?case by (auto simp: Let_def b64_in_chars)
next
  case (2 a b)
  have lt: "unat a < 256" "unat b < 256" by (simp_all add: unat_byte)
  note sb = sextet_bounds [OF lt lt(1)]
  from 2 sb show ?case by (auto simp: Let_def b64_in_chars)
next
  case (3 a)
  have lt: "unat a < 256" by (simp_all add: unat_byte)
  note sb = sextet_bounds [OF lt lt lt]
  from 3 sb show ?case by (auto simp: Let_def b64_in_chars)
next
  case 4
  then show ?case by simp
qed

lemma base64_encode_chars:
  assumes "c \<in> set (base64_encode bs)"
  shows "c \<noteq> CHR '','' \<and> \<not> is_line_terminator c"
proof -
  have "CHR '','' \<notin> set b64chars" "CHR 0x0A \<notin> set b64chars" "CHR 0x0D \<notin> set b64chars"
    by (simp_all add: b64chars_def)
  with base64_encode_alphabet [OF assms] show ?thesis
    by (auto simp: is_line_terminator_def)
qed

lemma match_data_url_png:
  assumes "payload \<noteq> []" "\<not> list_ex is_line_terminator payload"
  shows "match_data_url (''data:image/png;base64,'' @ payload) = Some (''png'', payload)"
  using assms by (simp add: match_data_url_def is_format_char_def)

lemma split_on_absent: "sep \<notin> set s \<Longrightarrow> split_on sep s = [s]"
  by (induction s) auto

lemma second_piece_png:
  assumes "CHR '','' \<notin> set payload"
  shows "second_piece (split_on CHR '','' (''data:image/png;base64,'' @ payload)) = Some payload"
  using assms by (simp add: second_piece_def split_on_absent)

lemma imageToBuffer_png_data_url:
  assumes "bytes \<noteq> []"
  shows "imageToBuffer fetch (''data:image/png;base64,'' @ base64_encode bytes) = Inr bytes"
proof -
  have ne: "base64_encode bytes \<noteq> []" using assms by (rule base64_encode_nonempty)
  have nl: "\<not> list_ex is_line_terminator (base64_encode bytes)"
    using base64_encode_chars [of _ bytes] by (auto simp: list_ex_iff)
  have "match_data_url (''data:image/png;base64,'' @ base64_encode bytes)
          = Some (''png'', base64_encode bytes)"
    using ne nl by (rule match_data_url_png)
  then show ?thesis
    by (simp add: imageToBuffer_def startsWith_def Buffer_from_base64_def base64_roundtrip)
qed

lemma imageToBuffer_local_png_data_url:
  "imageToBuffer_local fetch (''data:image/png;base64,'' @ base64_encode bytes) = Inr bytes"
proof -
  have "CHR '','' \<notin> set (base64_encode bytes)"
    using base64_encode_chars [of _ bytes] by auto
  then have "second_piece (split_on CHR '','' (''data:image/png;base64,'' @ base64_encode bytes))
          = Some (base64_encode bytes)"
    by (rule second_piece_png)
  then show ?thesis
    by (simp add: imageToBuffer_local_def startsWith_def Buffer_from_base64_def base64_roundtrip)
qed

text \<open>
  Claim C6. For every non-empty byte sequence, the image decoder of the utilities gives back
  exactly these bytes on the data URL \<open>data:image/png;base64,\<close> followed by their base64
  encoding, which is the string \<open>bufferToDataURL\<close> builds.
\<close>

theorem imageToBuffer_dataURL_roundtrip:
  assumes "bytes \<noteq> []"
  shows "bufferToDataURL bytes ''image/png'' = ''data:image/png;base64,'' @ base64_encode bytes
    \<and> imageToBuffer fetch (bufferToDataURL bytes ''image/png'') = Inr bytes"
  using imageToBuffer_png_data_url [OF assms, of fetch] by (simp add: bufferToDataURL_def)

theorem imageToBuffer_dataURL_roundtrip_witness:
  "[0x89, 0x50, 0x4e, 0x47 :: byte] \<noteq> []
   \<and> bufferToDataURL [0x89, 0x50, 0x4e, 0x47] ''image/png'' = ''data:image/png;base64,iVBORw==''
   \<and> imageToBuffer (\<lambda>url. FetchFails []) ''data:image/png;base64,iVBORw=='' = Inr [0x89, 0x50, 0x4e, 0x47]"
proof -
  have ne: "[0x89, 0x50, 0x4e, 0x47 :: byte] \<noteq> []" by simp
  have url: "bufferToDataURL [0x89, 0x50, 0x4e, 0x47] ''image/png'' = ''data:image/png;base64,iVBORw==''"
    by (simp add: bufferToDataURL_def Let_def b64_def b64chars_def)
  from imageToBuffer_dataURL_roundtrip [OF ne, of "\<lambda>url. FetchFails []"]
  have "imageToBuffer (\<lambda>url. FetchFails []) (bufferToDataURL [0x89, 0x50, 0x4e, 0x47] ''image/png'')
          = Inr [0x89, 0x50, 0x4e, 0x47]"
    by (rule conjunct2)
  then have "imageToBuffer (\<lambda>url. FetchFails []) ''data:image/png;base64,iVBORw=='' = Inr [0x89, 0x50, 0x4e, 0x47]"
    by (simp only: url)
  with ne url show ?thesis by blast
qed

subsection \<open>Schema validation\<close>

lemma map_of_update: "map_of (AList.update f x kvs) k = (if k = f then Some x else map_of kvs k)"
  by (simp add: update_conv')

lemma object_issues_Nil: "object_issues [] kvs = []"
  by (simp add: object_issues_def)

lemma object_issues_Cons:
  "object_issues ((k, s) # shape) kvs = sub_issues (Key k) (s (map_of kvs k)) @ object_issues shape kvs"
  by (simp add: object_issues_def)

lemma accepts_iff:
  "accepts shape kvs \<longleftrightarrow> (\<forall>(k, s) \<in> set shape. sub_issues (Key k) (s (map_of kvs k)) = [])"
  by (induction shape) (auto simp: accepts_def object_issues_Nil object_issues_Cons)

lemma object_issues_member:
  assumes "(k, s) \<in> set shape" "i \<in> set (sub_issues (Key k) (s (map_of kvs k)))"
  shows "i \<in> set (object_issues shape kvs)"
  using assms by (induction shape) (auto simp: object_issues_Cons)

lemma join_member: "x \<in> set xs \<Longrightarrow> \<exists>pre post. join sep xs = pre @ x @ post"
proof (induction sep xs rule: join.induct)
  case (1 sep)
  then show ?case by simp
next
  case (2 sep y)
  then have "join sep [y] = [] @ x @ []" by simp
  then show ?case by blast
next
  case (3 sep y z zs)
  show ?case
  proof (cases "x = y")
    case True
    then have "join sep (y # z # zs) = [] @ x @ (sep @ join sep (z # zs))" by simp
    then show ?thesis by blast
  next
    case False
    with 3 obtain pre post where "join sep (z # zs) = pre @ x @ post" by auto
    then have "join sep (y # z # zs) = (y @ sep @ pre) @ x @ post" by simp
    then show ?thesis by blast
  qed
qed

lemma format_issues_names_field:
  assumes "([Key f], msg @ rest) \<in> set issues"
  shows "js_includes (format_issues issues) (f @ '': '' @ msg)"
proof -
  have "format_issue ([Key f], msg @ rest) \<in> set (map format_issue issues)"
    using assms by force
  then obtain pre post where "format_issues issues = pre @ format_issue ([Key f], msg @ rest) @ post"
    unfolding format_issues_def using join_member by blast
  then have "format_issues issues = pre @ (f @ '': '' @ msg) @ (rest @ post)"
    by (simp add: format_issue_def)
  then show ?thesis by (simp only: js_includes_append)
qed

text \<open>A bounded numeric field schema, as all of the source's are built.\<close>

lemma z_number_range:
  "lo \<le> hi \<Longrightarrow> z_number [Min lo, Max hi] (Some (JNum v)) =
     (if v < of_int lo then Inl [([], ''Number must be greater than or equal to '' @ show_int lo)]
      else if of_int hi < v then Inl [([], ''Number must be less than or equal to '' @ show_int hi)]
      else Inr (Some (JNum v)))"
proof -
  assume "lo \<le> hi"
  then have "of_int lo \<le> (of_int hi :: real)" by simp
  then have "\<not> (v < of_int lo \<and> of_int hi < v)" by linarith
  then show ?thesis by (auto simp: z_number_def Let_def)
qed

lemma inclusive_boundsI:
  assumes dist: "distinct (map fst shape)"
    and mem: "(f, s) \<in> set shape"
    and num: "\<And>v. s (Some (JNum v)) = z_number [Min lo, Max hi] (Some (JNum v))"
    and le: "lo \<le> hi"
  shows "inclusive_bounds shape f lo hi"
proof -
  have same: "s' = s" if "(f, s') \<in> set shape" for s'
    using dist mem that by (meson eq_key_imp_eq_value)
  have ok: "accepts shape (AList.update f (JNum v) kvs)"
    if acc: "accepts shape kvs" and rng: "of_int lo \<le> v" "v \<le> of_int hi" for kvs v
    unfolding accepts_iff
  proof (clarify)
    fix k s' assume ks: "(k, s') \<in> set shape"
    show "sub_issues (Key k) (s' (map_of (AList.update f (JNum v) kvs) k)) = []"
    proof (cases "k = f")
      case True
      with ks same have "s' = s" by simp
      with True rng show ?thesis
        by (simp add: map_of_update num z_number_range [OF le] sub_issues_def)
    next
      case False
      with acc ks show ?thesis
        by (auto simp: accepts_iff map_of_update)
    qed
  qed
  have bad: "\<not> accepts shape (AList.update f (JNum v) kvs)
      \<and> (\<exists>msg. ([Key f], msg) \<in> set (object_issues shape (AList.update f (JNum v) kvs)))
      \<and> js_includes (format_issues (object_issues shape (AList.update f (JNum v) kvs)))
            (f @ '': Number must be '')"
    if out: "v < of_int lo \<or> of_int hi < v" for kvs v
  proof -
    let ?kvs = "AList.update f (JNum v) kvs"
    have "\<exists>rest. s (map_of ?kvs f) = Inl [([], ''Number must be '' @ rest)]"
    proof (cases "v < of_int lo")
      case True
      then have "s (map_of ?kvs f)
          = Inl [([], ''Number must be '' @ (''greater than or equal to '' @ show_int lo))]"
        by (simp add: map_of_update num z_number_range [OF le])
      then show ?thesis by blast
    next
      case False
      with out have "s (map_of ?kvs f)
          = Inl [([], ''Number must be '' @ (''less than or equal to '' @ show_int hi))]"
        by (simp add: map_of_update num z_number_range [OF le])
      then show ?thesis by blast
    qed
    then obtain rest where
      r: "s (map_of ?kvs f) = Inl [([], ''Number must be '' @ rest)]" by blast
    then have "([Key f], ''Number must be '' @ rest) \<in> set (sub_issues (Key f) (s (map_of ?kvs f)))"
      by (simp add: sub_issues_def)
    with mem have in_issues: "([Key f], ''Number must be '' @ rest) \<in> set (object_issues shape ?kvs)"
      by (rule object_issues_member)
    then have "object_issues shape ?kvs \<noteq> []" by auto
    moreover from in_issues
    have "js_includes (format_issues (object_issues shape ?kvs)) (f @ '': '' @ ''Number must be '')"
      by (rule format_issues_names_field)
    ultimately show ?thesis using in_issues by (auto simp: accepts_def)
  qed
  from le have "of_int lo \<le> (of_int hi :: real)" by simp
  with ok bad show ?thesis
    unfolding inclusive_bounds_def by auto
qed


lemma bounds_chat_temperature: "inclusive_bounds ChatCompletionSchema ''temperature'' 0 2"
proof (rule inclusive_boundsI)
  show "distinct (map fst ChatCompletionSchema)" by (simp add: ChatCompletionSchema_def)
  show "(''temperature'', z_default (z_optional (z_number [Min 0, Max 2])) (JNum 1)) \<in> set ChatCompletionSchema"
    by (simp add: ChatCompletionSchema_def)
  show "\<And>v. (z_default (z_optional (z_number [Min 0, Max 2])) (JNum 1)) (Some (JNum v)) = z_number [Min 0, Max 2] (Some (JNum v))"
    by (simp add: z_default_def z_optional_def)
  show "(0::int) \<le> 2" by simp
qed

lemma bounds_chat_top_p: "inclusive_bounds ChatCompletionSchema ''top_p'' 0 1"
proof (rule inclusive_boundsI)
  show "distinct (map fst ChatCompletionSchema)" by (simp add: ChatCompletionSchema_def)
  show "(''top_p'', z_optional (z_number [Min 0, Max 1])) \<in> set ChatCompletionSchema"
    by (simp add: ChatCompletionSchema_def)
  show "\<And>v. (z_optional (z_number [Min 0, Max 1])) (Some (JNum v)) = z_number [Min 0, Max 1] (Some (JNum v))"
    by (simp add: z_default_def z_optional_def)
  show "(0::int) \<le> 1" by simp
qed

lemma bounds_chat_frequency_penalty: "inclusive_bounds ChatCompletionSchema ''frequency_penalty'' (- 2) 2"
proof (rule inclusive_boundsI)
  show "distinct (map fst ChatCompletionSchema)" by (simp add: ChatCompletionSchema_def)
  show "(''frequency_penalty'', z_optional (z_number [Min (- 2), Max 2])) \<in> set ChatCompletionSchema"
    by (simp add: ChatCompletionSchema_def)
  show "\<And>v. (z_optional (z_number [Min (- 2), Max 2])) (Some (JNum v)) = z_number [Min (- 2), Max 2] (Some (JNum v))"
    by (simp add: z_default_def z_optional_def)
  show "((- 2)::int) \<le> 2" by simp
qed

lemma bounds_chat_presence_penalty: "inclusive_bounds ChatCompletionSchema ''presence_penalty'' (- 2) 2"
proof (rule inclusive_boundsI)
  show "distinct (map fst ChatCompletionSchema)" by (simp add: ChatCompletionSchema_def)
  show "(''presence_penalty'', z_optional (z_number [Min (- 2), Max 2])) \<in> set ChatCompletionSchema"
    by (simp add: ChatCompletionSchema_def)
  show "\<And>v. (z_optional (z_number [Min (- 2), Max 2])) (Some (JNum v)) = z_number [Min (- 2), Max 2] (Some (JNum v))"
    by (simp add: z_default_def z_optional_def)
  show "((- 2)::int) \<le> 2" by simp
qed

lemma bounds_args_temperature: "inclusive_bounds ChatCompletionArgsSchema ''temperature'' 0 2"
proof (rule inclusive_boundsI)
  show "distinct (map fst ChatCompletionArgsSchema)" by (simp add: ChatCompletionArgsSchema_def)
  show "(''temperature'', z_default (z_optional (z_number [Min 0, Max 2])) (JNum (7 / 10))) \<in> set ChatCompletionArgsSchema"
    by (simp add: ChatCompletionArgsSchema_def)
  show "\<And>v. (z_default (z_optional (z_number [Min 0, Max 2])) (JNum (7 / 10))) (Some (JNum v)) = z_number [Min 0, Max 2] (Some (JNum v))"
    by (simp add: z_default_def z_optional_def)
  show "(0::int) \<le> 2" by simp
qed

lemma bounds_args_top_p: "inclusive_bounds ChatCompletionArgsSchema ''top_p'' 0 1"
proof (rule inclusive_boundsI)
  show "distinct (map fst ChatCompletionArgsSchema)" by (simp add: ChatCompletionArgsSchema_def)
  show "(''top_p'', z_optional (z_number [Min 0, Max 1])) \<in> set ChatCompletionArgsSchema"
    by (simp add: ChatCompletionArgsSchema_def)
  show "\<And>v. (z_optional (z_number [Min 0, Max 1])) (Some (JNum v)) = z_number [Min 0, Max 1] (Some (JNum v))"
    by (simp add: z_default_def z_optional_def)
  show "(0::int) \<le> 1" by simp
qed

lemma bounds_args_frequency_penalty: "inclusive_bounds ChatCompletionArgsSchema ''frequency_penalty'' (- 2) 2"
proof (rule inclusive_boundsI)
  show "distinct (map fst ChatCompletionArgsSchema)" by (simp add: ChatCompletionArgsSchema_def)
  show "(''frequency_penalty'', z_optional (z_number [Min (- 2), Max 2])) \<in> set ChatCompletionArgsSchema"
    by (simp add: ChatCompletionArgsSchema_def)
  show "\<And>v. (z_optional (z_number [Min (- 2), Max 2])) (Some (JNum v)) = z_number [Min (- 2), Max 2] (Some (JNum v))"
    by (simp add: z_default_def z_optional_def)
  show "((- 2)::int) \<le> 2" by simp
qed

lemma bounds_args_presence_penalty: "inclusive_bounds ChatCompletionArgsSchema ''presence_penalty'' (- 2) 2"
proof (rule inclusive_boundsI)
  show "distinct (map fst ChatCompletionArgsSchema)" by (simp add: ChatCompletionArgsSchema_def)
  show "(''presence_penalty'', z_optional (z_number [Min (- 2), Max 2])) \<in> set ChatCompletionArgsSchema"
    by (simp add: ChatCompletionArgsSchema_def)
  show "\<And>v. (z_optional (z_number [Min (- 2), Max 2])) (Some (JNum v)) = z_number [Min (- 2), Max 2] (Some (JNum v))"
    by (simp add: z_default_def z_optional_def)
  show "((- 2)::int) \<le> 2" by simp
qed

lemma bounds_generate_image_n: "inclusive_bounds GenerateImageSchema ''n'' 1 10"
proof (rule inclusive_boundsI)
  show "distinct (map fst GenerateImageSchema)" by (simp add: GenerateImageSchema_def)
  show "(''n'', z_default (z_optional (z_number [Min 1, Max 10])) (JNum 1)) \<in> set GenerateImageSchema"
    by (simp add: GenerateImageSchema_def)
  show "\<And>v. (z_default (z_optional (z_number [Min 1, Max 10])) (JNum 1)) (Some (JNum v)) = z_number [Min 1, Max 10] (Some (JNum v))"
    by (simp add: z_default_def z_optional_def)
  show "(1::int) \<le> 10" by simp
qed

lemma bounds_edit_image_n: "inclusive_bounds EditImageSchema ''n'' 1 10"
proof (rule inclusive_boundsI)
  show "distinct (map fst EditImageSchema)" by (simp add: EditImageSchema_def)
  show "(''n'', z_default (z_optional (z_number [Min 1, Max 10])) (JNum 1)) \<in> set EditImageSchema"
    by (simp add: EditImageSchema_def)
  show "\<And>v. (z_default (z_optional (z_number [Min 1, Max 10])) (JNum 1)) (Some (JNum v)) = z_number [Min 1, Max 10] (Some (JNum v))"
    by (simp add: z_default_def z_optional_def)
  show "(1::int) \<le> 10" by simp
qed

lemma bounds_variation_n: "inclusive_bounds CreateImageVariationSchema ''n'' 1 10"
proof (rule inclusive_boundsI)
  show "distinct (map fst CreateImageVariationSchema)" by (simp add: CreateImageVariationSchema_def)
  show "(''n'', z_default (z_optional (z_number [Min 1, Max 10])) (JNum 1)) \<in> set CreateImageVariationSchema"
    by (simp add: CreateImageVariationSchema_def)
  show "\<And>v. (z_default (z_optional (z_number [Min 1, Max 10])) (JNum 1)) (Some (JNum v)) = z_number [Min 1, Max 10] (Some (JNum v))"
    by (simp add: z_default_def z_optional_def)
  show "(1::int) \<le> 10" by simp
qed


text \<open>A rejected argument object surfaces with the formatted issues as its message.\<close>

lemma schema_parse_rejects:
  "\<not> accepts shape kvs \<Longrightarrow> schema_parse shape (Some (JObj kvs)) = Inl (ZodError (object_issues shape kvs))"
  by (simp add: schema_parse_def accepts_def)

lemma callTool_schema_rejection:
  "\<not> accepts ChatCompletionSchema kvs \<Longrightarrow>
     callTool api fetch ''chat_completion'' (Some (JObj kvs))
       = Inl (PlainError (''Invalid input parameters: '' @ format_issues (object_issues ChatCompletionSchema kvs)))"
  "\<not> accepts GenerateImageSchema kvs \<Longrightarrow>
     callTool api fetch ''generate_image'' (Some (JObj kvs))
       = Inl (PlainError (''Invalid input parameters: '' @ format_issues (object_issues GenerateImageSchema kvs)))"
  "\<not> accepts EditImageSchema kvs \<Longrightarrow>
     callTool api fetch ''edit_image'' (Some (JObj kvs))
       = Inl (PlainError (''Invalid input parameters: '' @ format_issues (object_issues EditImageSchema kvs)))"
  "\<not> accepts CreateImageVariationSchema kvs \<Longrightarrow>
     callTool api fetch ''create_image_variation'' (Some (JObj kvs))
       = Inl (PlainError (''Invalid input parameters: '' @ format_issues (object_issues CreateImageVariationSchema kvs)))"
  "\<not> accepts ChatCompletionArgsSchema kvs \<Longrightarrow>
     callTool_index api project ''chat_completion'' (Some (JObj kvs))
       = Inl (McpError InvalidParams (''Invalid parameters: '' @ format_issues (object_issues ChatCompletionArgsSchema kvs)))"
  by (simp_all add: callTool_def callTool_index_def tool_request_def tool_request_index_def
      schema_parse_rejects)

text \<open>
  Claim C5. Every numeric field with declared bounds is checked inclusively: chat
  \<open>temperature\<close> in [0, 2], \<open>top_p\<close> in [0, 1], \<open>frequency_penalty\<close> and
  \<open>presence_penalty\<close> in [-2, 2] (in the chat schemas of both servers), and the image count
  \<open>n\<close> in [1, 10] for the three image tools. A value equal to a bound passes, a value
  strictly outside is rejected with a message that names the field.
\<close>

theorem numeric_bounds_inclusive:
  "inclusive_bounds ChatCompletionSchema ''temperature'' 0 2
   \<and> inclusive_bounds ChatCompletionSchema ''top_p'' 0 1
   \<and> inclusive_bounds ChatCompletionSchema ''frequency_penalty'' (- 2) 2
   \<and> inclusive_bounds ChatCompletionSchema ''presence_penalty'' (- 2) 2
   \<and> inclusive_bounds ChatCompletionArgsSchema ''temperature'' 0 2
   \<and> inclusive_bounds ChatCompletionArgsSchema ''top_p'' 0 1
   \<and> inclusive_bounds ChatCompletionArgsSchema ''frequency_penalty'' (- 2) 2
   \<and> inclusive_bounds ChatCompletionArgsSchema ''presence_penalty'' (- 2) 2
   \<and> inclusive_bounds GenerateImageSchema ''n'' 1 10
   \<and> inclusive_bounds EditImageSchema ''n'' 1 10
   \<and> inclusive_bounds CreateImageVariationSchema ''n'' 1 10"
  by (intro conjI bounds_chat_temperature bounds_chat_top_p bounds_chat_frequency_penalty
      bounds_chat_presence_penalty bounds_args_temperature bounds_args_top_p
      bounds_args_frequency_penalty bounds_args_presence_penalty bounds_generate_image_n
      bounds_edit_image_n bounds_variation_n)

theorem numeric_bounds_inclusive_witness:
  "accepts ChatCompletionSchema
     [(''messages'', JArr [JObj [(''role'', JStr ''user''), (''content'', JStr ''hi'')]])]
   \<and> accepts ChatCompletionSchema (AList.update ''temperature'' (JNum 0)
     [(''messages'', JArr [JObj [(''role'', JStr ''user''), (''content'', JStr ''hi'')]])])
   \<and> accepts ChatCompletionSchema (AList.update ''temperature'' (JNum 2)
     [(''messages'', JArr [JObj [(''role'', JStr ''user''), (''content'', JStr ''hi'')]])])
   \<and> (3::real) > 2
   \<and> \<not> accepts ChatCompletionSchema (AList.update ''temperature'' (JNum 3)
     [(''messages'', JArr [JObj [(''role'', JStr ''user''), (''content'', JStr ''hi'')]])])
   \<and> js_includes (format_issues (object_issues ChatCompletionSchema (AList.update ''temperature'' (JNum 3)
     [(''messages'', JArr [JObj [(''role'', JStr ''user''), (''content'', JStr ''hi'')]])])))
       ''temperature: Number must be ''"
proof -
  let ?kvs = "[(''messages'', JArr [JObj [(''role'', JStr ''user''), (''content'', JStr ''hi'')]])]"
  have acc: "accepts ChatCompletionSchema ?kvs"
    by (simp add: accepts_def ChatCompletionSchema_def ChatMessageSchema_def zod_defs)
  have out: "(3::real) < of_int 0 \<or> of_int 2 < (3::real)" by simp
  from numeric_bounds_inclusive
  have ib: "inclusive_bounds ChatCompletionSchema ''temperature'' 0 2" by (rule conjunct1)
  from ib acc have "accepts ChatCompletionSchema (AList.update ''temperature'' (JNum (of_int 0)) ?kvs)
      \<and> accepts ChatCompletionSchema (AList.update ''temperature'' (JNum (of_int 2)) ?kvs)"
    unfolding inclusive_bounds_def by blast
  moreover from ib out have "\<not> accepts ChatCompletionSchema (AList.update ''temperature'' (JNum 3) ?kvs)
      \<and> js_includes (format_issues (object_issues ChatCompletionSchema
            (AList.update ''temperature'' (JNum 3) ?kvs))) (''temperature'' @ '': Number must be '')"
    unfolding inclusive_bounds_def by blast
  ultimately show ?thesis using acc by simp
qed

subsection \<open>Chat message roles\<close>

lemma z_array_elements:
  assumes "\<forall>x \<in> set xs. elem (Some x) = Inr (Some x)" "length ks = length xs"
  shows "concat (map (\<lambda>(i, r). sub_issues (Idx i) r)
            (map (\<lambda>(i, x). (i, elem (Some x))) (zip ks xs))) = []
       \<and> concat (map (\<lambda>(i, r). sub_output r)
            (map (\<lambda>(i, x). (i, elem (Some x))) (zip ks xs))) = xs"
  using assms
proof (induction xs arbitrary: ks)
  case Nil
  then show ?case by simp
next
  case (Cons x xs)
  then obtain k ks' where "ks = k # ks'" by (cases ks) auto
  with Cons show ?case by (simp add: sub_issues_def sub_output_def)
qed

lemma z_array_accepts:
  assumes "\<forall>x \<in> set xs. elem (Some x) = Inr (Some x)"
  shows "z_array elem (Some (JArr xs)) = Inr (Some (JArr xs))"
  using z_array_elements [OF assms, of "[0..<length xs]"]
  by (simp add: z_array_def Let_def)

lemma ChatMessageSchema_accepts:
  assumes "role m \<in> set [''system'', ''user'', ''assistant'', ''function'', ''tool'']"
  shows "z_object ChatMessageSchema (Some (message_json m)) = Inr (Some (message_json m))"
  using assms
  by (cases "name m") (auto simp: ChatMessageSchema_def message_json_def zod_defs)

lemma ChatMessageArgsSchema_result:
  "z_object ChatMessageArgsSchema (Some (message_json m)) =
     (if role m \<in> set [''system'', ''user'', ''assistant'']
      then Inr (Some (JObj [(''role'', JStr (role m)), (''content'', JStr (content m))]))
      else Inl [([Key ''role''], ''Invalid enum value. Expected 'system' | 'user' | 'assistant', received ''
                    @ [CHR 0x27] @ role m @ [CHR 0x27])])"
  by (cases "name m") (auto simp: ChatMessageArgsSchema_def message_json_def zod_defs)

lemma digit_char_0: "digit_char 0 = CHR ''0''"
  by (simp add: digit_char_def)

lemma show_nat_code: "show_nat 12345 = ''12345''"
  by (simp add: digit_char_def)

lemma show_nat_small: "show_nat 401 = ''401''" "show_nat 0 = ''0''" "show_nat 10 = ''10''"
  by (simp_all add: digit_char_def)

text \<open>
  Claim C9 fails for the chat tool of the four-tool server: its role enum has three values,
  so a message with role \<open>tool\<close> is an enum violation and the call is answered with
  \<open>InvalidParams\<close>.
\<close>

theorem index_rejects_tool_role:
  "z_array (z_object ChatMessageArgsSchema)
      (Some (JArr [JObj [(''role'', JStr ''tool''), (''content'', JStr ''42'')]]))
     = Inl [([Idx 0, Key ''role''],
             ''Invalid enum value. Expected 'system' | 'user' | 'assistant', received 'tool'' @ [CHR 0x27])]
   \<and> callTool_index upstream_null project_id ''chat_completion''
        (Some (JObj [(''messages'', JArr [JObj [(''role'', JStr ''tool''), (''content'', JStr ''42'')]])]))
     = Inl (McpError InvalidParams
        (''Invalid parameters: messages.0.role: Invalid enum value. Expected 'system' | 'user' | 'assistant', received 'tool'' @ [CHR 0x27]))"
  by (simp add: callTool_index_def tool_request_index_def ChatCompletionArgsSchema_def
      ChatMessageArgsSchema_def zod_defs format_issues_def format_issue_def digit_char_0)

text \<open>
  Claim C9, amended. The \<open>messages\<close> schema of the six-tool server accepts every list of
  messages whose roles are among \<open>system\<close>, \<open>user\<close>, \<open>assistant\<close>, \<open>function\<close>
  and \<open>tool\<close> (with string content and an optional name). The \<open>messages\<close> schema of the
  four-tool server accepts a message exactly when its role is \<open>system\<close>, \<open>user\<close> or
  \<open>assistant\<close>.
\<close>

theorem chat_message_roles:
  "(list_all (\<lambda>m. role m \<in> set [''system'', ''user'', ''assistant'', ''function'', ''tool'']) ms \<longrightarrow>
      z_array (z_object ChatMessageSchema) (Some (JArr (map message_json ms)))
        = Inr (Some (JArr (map message_json ms))))
   \<and> ((\<exists>v. z_array (z_object ChatMessageArgsSchema) (Some (JArr [message_json m])) = Inr v)
        \<longleftrightarrow> role m \<in> set [''system'', ''user'', ''assistant''])"
proof -
  have "z_array (z_object ChatMessageSchema) (Some (JArr (map message_json ms)))
        = Inr (Some (JArr (map message_json ms)))"
    if "list_all (\<lambda>m. role m \<in> set [''system'', ''user'', ''assistant'', ''function'', ''tool'']) ms"
  proof (rule z_array_accepts)
    from that show "\<forall>x\<in>set (map message_json ms). z_object ChatMessageSchema (Some x) = Inr (Some x)"
      using ChatMessageSchema_accepts by (auto simp: list_all_iff simp del: set_simps)
  qed
  moreover have "(\<exists>v. z_array (z_object ChatMessageArgsSchema) (Some (JArr [message_json m])) = Inr v)
        \<longleftrightarrow> role m \<in> set [''system'', ''user'', ''assistant'']"
    by (simp add: z_array_def Let_def ChatMessageArgsSchema_result sub_issues_def sub_output_def)
  ultimately show ?thesis by blast
qed

theorem chat_message_roles_witness:
  "list_all (\<lambda>m. role m \<in> set [''system'', ''user'', ''assistant'', ''function'', ''tool''])
      [\<lparr>role = ''tool'', content = ''42'', name = None\<rparr>,
       \<lparr>role = ''function'', content = ''ok'', name = Some ''lookup''\<rparr>]
   \<and> z_array (z_object ChatMessageSchema) (Some (JArr (map message_json
      [\<lparr>role = ''tool'', content = ''42'', name = None\<rparr>,
       \<lparr>role = ''function'', content = ''ok'', name = Some ''lookup''\<rparr>])))
     = Inr (Some (JArr (map message_json
      [\<lparr>role = ''tool'', content = ''42'', name = None\<rparr>,
       \<lparr>role = ''function'', content = ''ok'', name = Some ''lookup''\<rparr>])))
   \<and> (\<exists>v. z_array (z_object ChatMessageArgsSchema)
          (Some (JArr [message_json \<lparr>role = ''user'', content = ''hi'', name = None\<rparr>])) = Inr v)
   \<and> \<not> (\<exists>v. z_array (z_object ChatMessageArgsSchema)
          (Some (JArr [message_json \<lparr>role = ''tool'', content = ''42'', name = None\<rparr>])) = Inr v)"
  using chat_message_roles [of "[\<lparr>role = ''tool'', content = ''42'', name = None\<rparr>,
       \<lparr>role = ''function'', content = ''ok'', name = Some ''lookup''\<rparr>]"
       "\<lparr>role = ''user'', content = ''hi'', name = None\<rparr>"]
     chat_message_roles [of "[]" "\<lparr>role = ''tool'', content = ''42'', name = None\<rparr>"]
  by simp

subsection \<open>Parsed parameters of generate_image\<close>

lemma object_output_Cons:
  "object_output ((k, s) # shape) kvs
     = map (Pair k) (sub_output (s (map_of kvs k))) @ object_output shape kvs"
  by (simp add: object_output_def)

lemma map_of_sub_output:
  "map_of (map (Pair k') (sub_output r)) k
     = (if k' = k then (case r of Inr v \<Rightarrow> v | Inl e \<Rightarrow> None) else None)"
  by (auto simp: sub_output_def split: sum.splits option.splits)

lemma object_output_absent:
  "k \<notin> fst ` set shape \<Longrightarrow> map_of (object_output shape kvs) k = None"
  by (induction shape) (auto simp: object_output_def map_of_sub_output map_add_def)

lemma object_output_lookup:
  assumes "distinct (map fst shape)" "(k, s) \<in> set shape"
  shows "map_of (object_output shape kvs) k = (case s (map_of kvs k) of Inr v \<Rightarrow> v | Inl e \<Rightarrow> None)"
  using assms
proof (induction shape)
  case Nil
  then show ?case by simp
next
  case (Cons ks shape)
  obtain k' s' where ks: "ks = (k', s')" by (cases ks)
  show ?case
  proof (cases "k' = k")
    case True
    with Cons.prems ks have "s' = s" "k \<notin> fst ` set shape" by (auto simp: image_iff)
    then show ?thesis using ks True
      by (auto simp: object_output_Cons map_add_def map_of_sub_output object_output_absent
          split: option.splits sum.splits)
  next
    case False
    with Cons ks show ?thesis
      by (auto simp: object_output_Cons map_add_def map_of_sub_output split: option.splits)
  qed
qed

lemma accepts_field:
  "accepts shape kvs \<Longrightarrow> (k, s) \<in> set shape \<Longrightarrow> sub_issues (Key k) (s (map_of kvs k)) = []"
  by (auto simp: accepts_iff)

lemma schema_parse_accepts:
  "schema_parse shape args = Inr params \<longleftrightarrow>
     (\<exists>kvs. args = Some (JObj kvs) \<and> accepts shape kvs \<and> params = object_output shape kvs)"
  by (auto simp: schema_parse_def accepts_def split: option.splits json.splits)

text \<open>Field schemas of the image tools: what a passing field parses to.\<close>

lemma z_enum_ok:
  "sub_issues k (z_enum opts inp) = [] \<Longrightarrow>
     \<exists>str. inp = Some (JStr str) \<and> z_enum opts inp = Inr (Some (JStr str))"
  by (auto simp: z_enum_def sub_issues_def split: option.splits json.splits if_splits)

lemma enum_default_ok:
  "sub_issues k (z_default (z_enum opts) (JStr d) inp) = [] \<Longrightarrow>
     \<exists>str. z_default (z_enum opts) (JStr d) inp = Inr (Some (JStr str))
       \<and> str = (case inp of Some (JStr t) \<Rightarrow> t | _ \<Rightarrow> d)"
  using z_enum_ok [of k opts "Some (JStr d)"] z_enum_ok [of k opts inp]
  by (auto simp: z_default_def)

lemma enum_optional_default_ok:
  "sub_issues k (z_default (z_optional (z_enum opts)) (JStr d) inp) = [] \<Longrightarrow>
     \<exists>str. z_default (z_optional (z_enum opts)) (JStr d) inp = Inr (Some (JStr str))
       \<and> str = (case inp of Some (JStr t) \<Rightarrow> t | _ \<Rightarrow> d)"
  using z_enum_ok [of k opts "Some (JStr d)"] z_enum_ok [of k opts inp]
  by (auto simp: z_default_def z_optional_def)

lemma z_number_ok:
  "sub_issues k (z_number cs inp) = [] \<Longrightarrow>
     \<exists>x. inp = Some (JNum x) \<and> z_number cs inp = Inr (Some (JNum x))"
  by (auto simp: z_number_def sub_issues_def Let_def split: option.splits json.splits if_splits)

lemma number_optional_default_ok:
  "sub_issues k (z_default (z_optional (z_number cs)) (JNum d) inp) = [] \<Longrightarrow>
     \<exists>x. z_default (z_optional (z_number cs)) (JNum d) inp = Inr (Some (JNum x))"
  using z_number_ok [of k cs "Some (JNum d)"] z_number_ok [of k cs inp]
  by (auto simp: z_default_def z_optional_def)

lemma distinct_GenerateImageSchema: "distinct (map fst GenerateImageSchema)"
  by (simp add: GenerateImageSchema_def)

lemma GenerateImageSchema_fields:
  "(''model'', z_default (z_enum [''dall-e-2'', ''dall-e-3'']) (JStr ''dall-e-3'')) \<in> set GenerateImageSchema"
  "(''n'', z_default (z_optional (z_number [Min 1, Max 10])) (JNum 1)) \<in> set GenerateImageSchema"
  "(''quality'', z_default (z_optional (z_enum [''standard'', ''hd''])) (JStr ''standard'')) \<in> set GenerateImageSchema"
  "(''size'', z_default (z_optional (z_enum
          [''256x256'', ''512x512'', ''1024x1024'', ''1792x1024'', ''1024x1792''])) (JStr ''1024x1024'')) \<in> set GenerateImageSchema"
  "(''style'', z_default (z_optional (z_enum [''vivid'', ''natural''])) (JStr ''vivid'')) \<in> set GenerateImageSchema"
  by (simp_all add: GenerateImageSchema_def)

lemma GenerateImageSchema_parsed:
  assumes "accepts GenerateImageSchema kvs"
  shows "\<exists>m x q sz st.
     map_of (object_output GenerateImageSchema kvs) ''model'' = Some (JStr m)
     \<and> m = (case map_of kvs ''model'' of Some (JStr t) \<Rightarrow> t | _ \<Rightarrow> ''dall-e-3'')
     \<and> map_of (object_output GenerateImageSchema kvs) ''n'' = Some (JNum x)
     \<and> map_of (object_output GenerateImageSchema kvs) ''quality'' = Some (JStr q)
     \<and> q = (case map_of kvs ''quality'' of Some (JStr t) \<Rightarrow> t | _ \<Rightarrow> ''standard'')
     \<and> map_of (object_output GenerateImageSchema kvs) ''size'' = Some (JStr sz)
     \<and> map_of (object_output GenerateImageSchema kvs) ''style'' = Some (JStr st)
     \<and> st = (case map_of kvs ''style'' of Some (JStr t) \<Rightarrow> t | _ \<Rightarrow> ''vivid'')
     \<and> List.member [''vivid'', ''natural''] st"
proof -
  note look = object_output_lookup [OF distinct_GenerateImageSchema]
  note fld = accepts_field [OF assms]
  from enum_default_ok [OF fld [OF GenerateImageSchema_fields(1)]] look [OF GenerateImageSchema_fields(1), of kvs]
  obtain m where m: "map_of (object_output GenerateImageSchema kvs) ''model'' = Some (JStr m)"
    "m = (case map_of kvs ''model'' of Some (JStr t) \<Rightarrow> t | _ \<Rightarrow> ''dall-e-3'')" by auto
  from number_optional_default_ok [OF fld [OF GenerateImageSchema_fields(2)]] look [OF GenerateImageSchema_fields(2), of kvs]
  obtain x where x: "map_of (object_output GenerateImageSchema kvs) ''n'' = Some (JNum x)" by auto
  from enum_optional_default_ok [OF fld [OF GenerateImageSchema_fields(3)]] look [OF GenerateImageSchema_fields(3), of kvs]
  obtain q where q: "map_of (object_output GenerateImageSchema kvs) ''quality'' = Some (JStr q)"
    "q = (case map_of kvs ''quality'' of Some (JStr t) \<Rightarrow> t | _ \<Rightarrow> ''standard'')" by auto
  from enum_optional_default_ok [OF fld [OF GenerateImageSchema_fields(4)]] look [OF GenerateImageSchema_fields(4), of kvs]
  obtain sz where sz: "map_of (object_output GenerateImageSchema kvs) ''size'' = Some (JStr sz)" by auto
  from enum_optional_default_ok [OF fld [OF GenerateImageSchema_fields(5)]] look [OF GenerateImageSchema_fields(5), of kvs]
  obtain st where st: "map_of (object_output GenerateImageSchema kvs) ''style'' = Some (JStr st)"
    "st = (case map_of kvs ''style'' of Some (JStr t) \<Rightarrow> t | _ \<Rightarrow> ''vivid'')"
    "z_default (z_optional (z_enum [''vivid'', ''natural''])) (JStr ''vivid'') (map_of kvs ''style'') = Inr (Some (JStr st))"
    by auto
  from st(3) have "List.member [''vivid'', ''natural''] st"
    by (auto simp: z_default_def z_optional_def z_enum_def split: if_splits option.splits json.splits)
  with m x q sz st show ?thesis by blast
qed

subsection \<open>The model checks of the handler\<close>

text \<open>
  Claim C2 fails on the handler: with \<open>dall-e-2\<close>, quality \<open>hd\<close>, a style and size
  \<open>1792x1024\<close> three rules are violated, and the reply carries the first message only.
\<close>

theorem generate_image_hides_later_violations:
  "validateDALLEParams_errors \<lparr>p_model = ''dall-e-2'', p_size = Some ''1792x1024'',
       p_quality = Some ''hd'', p_style = Some ''vivid'', p_n = Some 1\<rparr>
     = [''DALL-E 2 does not support 'hd' quality'', ''DALL-E 2 does not support 'style' parameter'',
        ''DALL-E 2 only supports sizes: 256x256, 512x512, 1024x1024'']
   \<and> callTool upstream_null no_network ''generate_image'' (Some (JObj [(''prompt'', JStr ''a cat''),
       (''model'', JStr ''dall-e-2''), (''quality'', JStr ''hd''), (''style'', JStr ''vivid''),
       (''size'', JStr ''1792x1024'')]))
     = Inl (PlainError ''DALL-E 2 does not support 'hd' quality'')
   \<and> \<not> js_includes ''DALL-E 2 does not support 'hd' quality'' ''style''
   \<and> \<not> js_includes ''DALL-E 2 does not support 'hd' quality'' ''sizes''"
  by (simp add: dalle_defs callTool_def handler_defs GenerateImageSchema_def zod_defs)

text \<open>
  Claim C2, amended. For schema-validated \<open>generate_image\<close> arguments the handler reports
  exactly the first violated rule, in the order of the table (for \<open>dall-e-3\<close>: n, size; for
  \<open>dall-e-2\<close>: quality, style, size): the head of the list that \<open>validateDALLEParams\<close>
  collects; with no violated rule the request is sent upstream.
\<close>

theorem generate_image_reports_first_violation:
  assumes "schema_parse GenerateImageSchema args = Inr params"
  shows "tool_request fetch ''generate_image'' args =
     (case validateDALLEParams_errors (dalle_params_of params) of
        [] \<Rightarrow> Inr (ImagesGenerate params)
      | e # es \<Rightarrow> Inl (PlainError e))"
proof -
  from assms obtain kvs where kvs: "args = Some (JObj kvs)" "accepts GenerateImageSchema kvs"
    "params = object_output GenerateImageSchema kvs"
    by (auto simp: schema_parse_accepts)
  from GenerateImageSchema_parsed [OF kvs(2)] kvs(3)
  obtain m x q sz st where f:
    "map_of params ''model'' = Some (JStr m)" "map_of params ''n'' = Some (JNum x)"
    "map_of params ''quality'' = Some (JStr q)" "map_of params ''size'' = Some (JStr sz)"
    "map_of params ''style'' = Some (JStr st)"
    by blast
  have "generate_image_checks params =
     (case validateDALLEParams_errors (dalle_params_of params) of
        [] \<Rightarrow> Inr () | e # es \<Rightarrow> Inl (PlainError e))"
    by (simp add: generate_image_checks_def dalle_defs dalle_params_of_def string_prop_def
        string_opt_def number_opt_def f)
  with assms show ?thesis
    by (simp add: tool_request_def split: list.splits)
qed

theorem generate_image_reports_first_violation_witness:
  "schema_parse GenerateImageSchema (Some (JObj [(''prompt'', JStr ''a cat''),
       (''model'', JStr ''dall-e-2''), (''quality'', JStr ''hd''), (''style'', JStr ''vivid''),
       (''size'', JStr ''1792x1024'')]))
     = Inr [(''prompt'', JStr ''a cat''), (''model'', JStr ''dall-e-2''), (''n'', JNum 1),
        (''quality'', JStr ''hd''), (''response_format'', JStr ''url''),
        (''size'', JStr ''1792x1024''), (''style'', JStr ''vivid'')]
   \<and> tool_request no_network ''generate_image'' (Some (JObj [(''prompt'', JStr ''a cat''),
       (''model'', JStr ''dall-e-2''), (''quality'', JStr ''hd''), (''style'', JStr ''vivid''),
       (''size'', JStr ''1792x1024'')]))
     = Inl (PlainError ''DALL-E 2 does not support 'hd' quality'')"
proof -
  have p: "schema_parse GenerateImageSchema (Some (JObj [(''prompt'', JStr ''a cat''),
       (''model'', JStr ''dall-e-2''), (''quality'', JStr ''hd''), (''style'', JStr ''vivid''),
       (''size'', JStr ''1792x1024'')]))
     = Inr [(''prompt'', JStr ''a cat''), (''model'', JStr ''dall-e-2''), (''n'', JNum 1),
        (''quality'', JStr ''hd''), (''response_format'', JStr ''url''),
        (''size'', JStr ''1792x1024''), (''style'', JStr ''vivid'')]"
    by (simp add: GenerateImageSchema_def zod_defs)
  from generate_image_reports_first_violation [OF p, of no_network] p
  show ?thesis
    by (simp add: dalle_defs dalle_params_of_def string_prop_def string_opt_def number_opt_def)
qed

text \<open>
  Claim C10 fails when the arguments also ask for quality \<open>hd\<close>: the call is rejected, but
  with the quality error, which is thrown before the style check is reached.
\<close>

theorem dalle2_hd_without_style_gets_quality_error:
  "callTool upstream_null no_network ''generate_image''
     (Some (JObj [(''prompt'', JStr ''a cat''), (''model'', JStr ''dall-e-2''), (''quality'', JStr ''hd'')]))
     = Inl (PlainError ''DALL-E 2 does not support 'hd' quality'')
   \<and> ''DALL-E 2 does not support 'hd' quality'' \<noteq> ''DALL-E 2 does not support 'style' parameter''
   \<and> \<not> js_includes ''DALL-E 2 does not support 'hd' quality'' ''style''"
  by (simp add: callTool_def handler_defs GenerateImageSchema_def zod_defs)

text \<open>
  Claim C10, amended. A \<open>generate_image\<close> call that selects \<open>dall-e-2\<close> and omits
  \<open>style\<close> never reaches the upstream API: it is rejected by the schema, or, with the style
  defaulted to \<open>vivid\<close>, by the \<open>dall-e-2\<close> checks; the error is the \<open>'hd' quality\<close>
  error when quality is \<open>hd\<close> and the \<open>'style' parameter\<close> error otherwise.
\<close>

theorem dalle2_without_style_rejected:
  assumes "map_of kvs ''model'' = Some (JStr ''dall-e-2'')" and "map_of kvs ''style'' = None"
  shows "tool_request fetch ''generate_image'' (Some (JObj kvs)) =
           (if \<not> accepts GenerateImageSchema kvs
            then Inl (ZodError (object_issues GenerateImageSchema kvs))
            else if map_of kvs ''quality'' = Some (JStr ''hd'')
            then Inl (PlainError ''DALL-E 2 does not support 'hd' quality'')
            else Inl (PlainError ''DALL-E 2 does not support 'style' parameter''))
     \<and> (accepts GenerateImageSchema kvs \<longrightarrow>
           map_of (object_output GenerateImageSchema kvs) ''style'' = Some (JStr ''vivid''))
     \<and> (\<exists>e. callTool api fetch ''generate_image'' (Some (JObj kvs)) = Inl e)"
proof -
  have req: "tool_request fetch ''generate_image'' (Some (JObj kvs)) =
           (if \<not> accepts GenerateImageSchema kvs
            then Inl (ZodError (object_issues GenerateImageSchema kvs))
            else if map_of kvs ''quality'' = Some (JStr ''hd'')
            then Inl (PlainError ''DALL-E 2 does not support 'hd' quality'')
            else Inl (PlainError ''DALL-E 2 does not support 'style' parameter''))"
  proof (cases "accepts GenerateImageSchema kvs")
    case False
    then show ?thesis by (simp add: tool_request_def schema_parse_def accepts_def)
  next
    case True
    let ?params = "object_output GenerateImageSchema kvs"
    from GenerateImageSchema_parsed [OF True] assms
    obtain q where f: "map_of ?params ''model'' = Some (JStr ''dall-e-2'')"
      "map_of ?params ''quality'' = Some (JStr q)"
      "q = (case map_of kvs ''quality'' of Some (JStr t) \<Rightarrow> t | _ \<Rightarrow> ''standard'')"
      "map_of ?params ''style'' = Some (JStr ''vivid'')"
      by auto
    from f(3) have hd: "q = ''hd'' \<longleftrightarrow> map_of kvs ''quality'' = Some (JStr ''hd'')"
      by (auto split: option.splits json.splits)
    from True have "schema_parse GenerateImageSchema (Some (JObj kvs)) = Inr ?params"
      by (simp add: schema_parse_accepts)
    then show ?thesis using True f(1,2,4) hd
      by (simp add: tool_request_def generate_image_checks_def)
  qed
  moreover have "accepts GenerateImageSchema kvs \<longrightarrow>
           map_of (object_output GenerateImageSchema kvs) ''style'' = Some (JStr ''vivid'')"
    using GenerateImageSchema_parsed assms by fastforce
  moreover from req have "\<exists>e. callTool api fetch ''generate_image'' (Some (JObj kvs)) = Inl e"
    by (simp add: callTool_def)
  ultimately show ?thesis by blast
qed

theorem dalle2_without_style_rejected_witness:
  "map_of [(''prompt'', JStr ''a cat''), (''model'', JStr ''dall-e-2'')] ''model'' = Some (JStr ''dall-e-2'')
   \<and> map_of [(''prompt'', JStr ''a cat''), (''model'', JStr ''dall-e-2'')] ''style'' = None
   \<and> accepts GenerateImageSchema [(''prompt'', JStr ''a cat''), (''model'', JStr ''dall-e-2'')]
   \<and> tool_request no_network ''generate_image''
        (Some (JObj [(''prompt'', JStr ''a cat''), (''model'', JStr ''dall-e-2'')]))
      = Inl (PlainError ''DALL-E 2 does not support 'style' parameter'')
   \<and> (\<exists>e. callTool upstream_null no_network ''generate_image''
        (Some (JObj [(''prompt'', JStr ''a cat''), (''model'', JStr ''dall-e-2'')])) = Inl e)"
proof -
  let ?kvs = "[(''prompt'', JStr ''a cat''), (''model'', JStr ''dall-e-2'')]"
  have m: "map_of ?kvs ''model'' = Some (JStr ''dall-e-2'')" and s: "map_of ?kvs ''style'' = None"
    by simp_all
  have acc: "accepts GenerateImageSchema ?kvs"
    by (simp add: accepts_def GenerateImageSchema_def zod_defs)
  from dalle2_without_style_rejected [OF m s, of no_network upstream_null] acc
  show ?thesis by simp
qed

subsection \<open>Image arguments that are not valid PNG data\<close>

text \<open>
  The raw branch of the utilities decoder returns whatever the forgiving base64 decoder
  produces; its \<open>catch\<close> is never entered.
\<close>

lemma imageToBuffer_raw_branch:
  assumes "\<not> startsWith s ''http://''" "\<not> startsWith s ''https://''" "\<not> startsWith s ''data:image''"
  shows "imageToBuffer fetch s = Inr (base64_decode s)"
  using assms by (simp add: imageToBuffer_def Buffer_from_base64_def)

text \<open>
  Claim C7, evaluated on the code. Strings that are neither URLs nor data URLs and contain
  characters outside the base64 alphabet are decoded, not rejected: \<open>AAAA!\<close> gives three
  zero bytes, \<open>!!!!\<close> the empty buffer, and \<open>data:invalid\<close> (which the tests expect to
  be rejected) eight bytes.
\<close>

theorem imageToBuffer_accepts_invalid_base64:
  "unbase64 CHR ''!'' = None
   \<and> imageToBuffer fetch ''AAAA!'' = Inr [0, 0, 0]
   \<and> imageToBuffer fetch ''!!!!'' = Inr []
   \<and> imageToBuffer fetch ''data:invalid'' = Inr [117, 171, 90, 138, 123, 218, 150, 39]
   \<and> imageToBuffer_local fetch ''AAAA!'' = Inr [0, 0, 0]"
  by (simp add: imageToBuffer_def imageToBuffer_local_def Buffer_from_base64_def startsWith_def
      base64_decode_def unbase64_def b64chars_def)

text \<open>
  Claim C3, evaluated on the code. The \<open>edit_image\<close> case decodes the image with the
  server's own helper, which takes whatever follows the comma of a data URL: for
  \<open>data:image/jpeg;base64,AAAA\<close> the request with the bytes 00 00 00 is sent upstream.
  Only the decoder of the utilities rejects the string, naming \<open>jpeg\<close>.
\<close>

theorem edit_image_jpeg_reaches_upstream:
  "tool_request fetch ''edit_image''
      (Some (JObj [(''image'', JStr ''data:image/jpeg;base64,AAAA''), (''prompt'', JStr ''x'')]))
     = Inr (ImagesEdit [0, 0, 0] None
         [(''prompt'', JStr ''x''), (''model'', JStr ''dall-e-2''), (''n'', JNum 1),
          (''size'', JStr ''1024x1024''), (''response_format'', JStr ''url'')])
   \<and> callTool api fetch ''edit_image''
      (Some (JObj [(''image'', JStr ''data:image/jpeg;base64,AAAA''), (''prompt'', JStr ''x'')]))
     = (case api (ImagesEdit [0, 0, 0] None
         [(''prompt'', JStr ''x''), (''model'', JStr ''dall-e-2''), (''n'', JNum 1),
          (''size'', JStr ''1024x1024''), (''response_format'', JStr ''url'')]) of
          Inl e \<Rightarrow> Inl (rethrow (Upstream e))
        | Inr result \<Rightarrow> Inr (TextContent result))
   \<and> imageToBuffer fetch ''data:image/jpeg;base64,AAAA''
     = Inl (PlainError ''Unsupported image format: jpeg. Only PNG is supported.'')"
proof -
  have req: "tool_request fetch ''edit_image''
      (Some (JObj [(''image'', JStr ''data:image/jpeg;base64,AAAA''), (''prompt'', JStr ''x'')]))
     = Inr (ImagesEdit [0, 0, 0] None
         [(''prompt'', JStr ''x''), (''model'', JStr ''dall-e-2''), (''n'', JNum 1),
          (''size'', JStr ''1024x1024''), (''response_format'', JStr ''url'')])"
    by (simp add: handler_defs EditImageSchema_def zod_defs imageToBuffer_local_def
        Buffer_from_base64_def startsWith_def second_piece_def base64_decode_def unbase64_def
        b64chars_def)
  moreover have "imageToBuffer fetch ''data:image/jpeg;base64,AAAA''
     = Inl (PlainError ''Unsupported image format: jpeg. Only PNG is supported.'')"
    by (simp add: imageToBuffer_def startsWith_def match_data_url_def is_format_char_def
        is_line_terminator_def)
  ultimately show ?thesis by (simp add: callTool_def)
qed

subsection \<open>Upstream failures\<close>

text \<open>The message the client builds for a failed response starts with the status.\<close>

lemma makeMessage_status:
  assumes "k \<noteq> 0"
  shows "\<exists>rest. makeMessage (Some k) body = show_nat k @ rest"
proof (cases body)
  case None
  with assms have "makeMessage (Some k) body = show_nat k @ '' status code (no body)''"
    by (simp add: makeMessage_def del: show_nat.simps)
  then show ?thesis by blast
next
  case (Some t)
  show ?thesis
  proof (cases "t = []")
    case True
    with Some assms have "makeMessage (Some k) body = show_nat k @ '' status code (no body)''"
      by (simp add: makeMessage_def del: show_nat.simps)
    then show ?thesis by blast
  next
    case False
    with Some assms have "makeMessage (Some k) body = show_nat k @ ('' '' @ t)"
      by (simp add: makeMessage_def del: show_nat.simps)
    then show ?thesis by blast
  qed
qed

lemma makeMessage_unauthorized:
  "makeMessage (Some 401) (Some ''Incorrect API key provided'') = ''401 Incorrect API key provided''"
  by (simp add: makeMessage_def digit_char_def)

text \<open>
  Claim C4 fails on the four-tool server: a failure of the upstream call with status 401
  surfaces as an \<open>McpError\<close> of code \<open>InternalError\<close>.
\<close>

theorem index_upstream_error_is_internal:
  "upstream_unauthorized (ChatCompletionsCreate [(''model'', JStr ''gpt-4o''),
       (''messages'', JArr [JObj [(''role'', JStr ''user''), (''content'', JStr ''hi'')]]),
       (''temperature'', JNum (7 / 10))])
     = Inl (APIError (Some 401) ''401 Incorrect API key provided'')
   \<and> callTool_index upstream_unauthorized project_id ''chat_completion''
       (Some (JObj [(''messages'', JArr [JObj [(''role'', JStr ''user''), (''content'', JStr ''hi'')]])]))
     = Inl (McpError InternalError ''OpenAI API error: 401 Incorrect API key provided'')"
  by (simp add: callTool_index_def tool_request_index_def ChatCompletionArgsSchema_def
      ChatMessageArgsSchema_def zod_defs pick_def upstream_unauthorized_def
      makeMessage_unauthorized)

text \<open>
  Claim C4, amended. When the upstream call throws, the six-tool server turns an
  \<open>APIError\<close> into an error whose message is \<open>OpenAI API error (status): message\<close> and
  rethrows any other error unchanged; the four-tool server turns every upstream error into
  an \<open>McpError\<close> of code \<open>InternalError\<close> whose message is \<open>OpenAI API error: \<close>
  followed by the upstream message. In both servers the message of the failure contains
  the status of an \<open>APIError\<close> that has one: the six-tool server prints it, and in the
  four-tool server it is the head of the message that the client has built.
\<close>

theorem upstream_errors_surface:
  "(tool_request fetch tool args = Inr req \<and> api req = Inl (APIError st m) \<longrightarrow>
      callTool api fetch tool args
        = Inl (PlainError (''OpenAI API error ('' @ show_status st @ ''): '' @ m)))
   \<and> (tool_request fetch tool args = Inr req \<and> api req = Inl (OtherError m) \<longrightarrow>
      callTool api fetch tool args = Inl (Upstream (OtherError m)))
   \<and> (tool_request_index tool args = Inr req \<and> api req = Inl e \<longrightarrow>
      callTool_index api project tool args
        = Inl (McpError InternalError (''OpenAI API error: '' @ upstream_message e)))
   \<and> (tool_request fetch tool args = Inr req \<and> api req = Inl (APIError (Some k) m) \<longrightarrow>
      (\<exists>shown. callTool api fetch tool args = Inl (PlainError shown)
         \<and> js_includes shown (show_nat k) \<and> js_includes shown m))
   \<and> (tool_request_index tool args = Inr req \<and> k \<noteq> 0
        \<and> api req = Inl (APIError (Some k) (makeMessage (Some k) body)) \<longrightarrow>
      (\<exists>shown. callTool_index api project tool args = Inl (McpError InternalError shown)
         \<and> js_includes shown (show_nat k) \<and> js_includes shown (makeMessage (Some k) body)))"
proof -
  have six: "js_includes (''OpenAI API error ('' @ show_status (Some k) @ ''): '' @ m) (show_nat k)"
    using js_includes_append [of "''OpenAI API error (''" "show_nat k" "''): '' @ m"]
    by (simp only: show_status_def option.case append_assoc)
  have six_text: "js_includes (''OpenAI API error ('' @ show_status (Some k) @ ''): '' @ m) m"
    using js_includes_append [of "''OpenAI API error ('' @ show_status (Some k) @ ''): ''" m "[]"]
    by (simp only: append_assoc append_Nil2)
  have four: "js_includes (''OpenAI API error: '' @ makeMessage (Some k) body) (show_nat k)"
    if "k \<noteq> 0"
  proof -
    from makeMessage_status [OF that, of body]
    obtain rest where r: "makeMessage (Some k) body = show_nat k @ rest" by blast
    show ?thesis
      unfolding r by (rule js_includes_append)
  qed
  have four_text: "js_includes (''OpenAI API error: '' @ makeMessage (Some k) body)
      (makeMessage (Some k) body)"
    using js_includes_append [of "''OpenAI API error: ''" "makeMessage (Some k) body" "[]"]
    by (simp only: append_Nil2)
  have c1: "tool_request fetch tool args = Inr req \<and> api req = Inl (APIError st m) \<longrightarrow>
      callTool api fetch tool args
        = Inl (PlainError (''OpenAI API error ('' @ show_status st @ ''): '' @ m))" for st
    by (simp add: callTool_def)
  have c2: "tool_request fetch tool args = Inr req \<and> api req = Inl (OtherError m) \<longrightarrow>
      callTool api fetch tool args = Inl (Upstream (OtherError m))"
    by (simp add: callTool_def)
  have c3: "tool_request_index tool args = Inr req \<and> api req = Inl e \<longrightarrow>
      callTool_index api project tool args
        = Inl (McpError InternalError (''OpenAI API error: '' @ upstream_message e))" for e
    by (simp add: callTool_index_def)
  have c4: "tool_request fetch tool args = Inr req \<and> api req = Inl (APIError (Some k) m) \<longrightarrow>
      (\<exists>shown. callTool api fetch tool args = Inl (PlainError shown)
         \<and> js_includes shown (show_nat k) \<and> js_includes shown m)"
    using c1 [of "Some k"] six six_text by blast
  have c5: "tool_request_index tool args = Inr req \<and> k \<noteq> 0
        \<and> api req = Inl (APIError (Some k) (makeMessage (Some k) body)) \<longrightarrow>
      (\<exists>shown. callTool_index api project tool args = Inl (McpError InternalError shown)
         \<and> js_includes shown (show_nat k) \<and> js_includes shown (makeMessage (Some k) body))"
  proof (intro impI, elim conjE)
    assume h: "tool_request_index tool args = Inr req" "k \<noteq> 0"
      "api req = Inl (APIError (Some k) (makeMessage (Some k) body))"
    from c3 [of "APIError (Some k) (makeMessage (Some k) body)"] h
    have "callTool_index api project tool args
        = Inl (McpError InternalError (''OpenAI API error: '' @ makeMessage (Some k) body))"
      by simp
    with four [OF h(2)] four_text show "\<exists>shown. callTool_index api project tool args
        = Inl (McpError InternalError shown)
         \<and> js_includes shown (show_nat k) \<and> js_includes shown (makeMessage (Some k) body)"
      by blast
  qed
  from c1 [of st] c2 c3 [of e] c4 c5 show ?thesis by blast
qed

theorem upstream_errors_surface_witness:
  "tool_request no_network ''list_models'' None = Inr ModelsList
   \<and> tool_request_index ''list_models'' None = Inr ModelsList
   \<and> upstream_unauthorized ModelsList = Inl (APIError (Some 401) ''401 Incorrect API key provided'')
   \<and> callTool upstream_unauthorized no_network ''list_models'' None
        = Inl (PlainError ''OpenAI API error (401): 401 Incorrect API key provided'')
   \<and> callTool_index upstream_unauthorized project_id ''list_models'' None
        = Inl (McpError InternalError ''OpenAI API error: 401 Incorrect API key provided'')
   \<and> (401::nat) \<noteq> 0
   \<and> (\<exists>shown. callTool_index upstream_unauthorized project_id ''list_models'' None
          = Inl (McpError InternalError shown) \<and> js_includes shown (show_nat 401))"
proof -
  have a: "tool_request no_network ''list_models'' None = Inr ModelsList"
    by (simp add: tool_request_def)
  have b: "tool_request_index ''list_models'' None = Inr ModelsList"
    by (simp add: tool_request_index_def)
  have u: "upstream_unauthorized ModelsList
      = Inl (APIError (Some 401) (makeMessage (Some 401) (Some ''Incorrect API key provided'')))"
    by (simp add: upstream_unauthorized_def)
  have nz: "(401::nat) \<noteq> 0" by simp
  note inst = upstream_errors_surface [where fetch = no_network and tool = "''list_models''"
      and args = None and req = ModelsList and api = upstream_unauthorized and st = "Some 401"
      and m = "makeMessage (Some 401) (Some ''Incorrect API key provided'')"
      and e = "APIError (Some 401) (makeMessage (Some 401) (Some ''Incorrect API key provided''))"
      and project = project_id and k = 401 and body = "Some ''Incorrect API key provided''"]
  from inst a u have six: "callTool upstream_unauthorized no_network ''list_models'' None
      = Inl (PlainError (''OpenAI API error ('' @ show_status (Some 401) @ ''): ''
          @ makeMessage (Some 401) (Some ''Incorrect API key provided'')))"
    by blast
  from inst b u have four: "callTool_index upstream_unauthorized project_id ''list_models'' None
      = Inl (McpError InternalError (''OpenAI API error: '' @ upstream_message
          (APIError (Some 401) (makeMessage (Some 401) (Some ''Incorrect API key provided'')))))"
    by blast
  from inst b u nz
  have inc: "\<exists>shown. callTool_index upstream_unauthorized project_id ''list_models'' None
          = Inl (McpError InternalError shown) \<and> js_includes shown (show_nat 401)"
    by blast
  have six': "callTool upstream_unauthorized no_network ''list_models'' None
        = Inl (PlainError ''OpenAI API error (401): 401 Incorrect API key provided'')"
    using six by (simp add: makeMessage_unauthorized show_status_def digit_char_def)
  have four': "callTool_index upstream_unauthorized project_id ''list_models'' None
        = Inl (McpError InternalError ''OpenAI API error: 401 Incorrect API key provided'')"
    using four by (simp add: makeMessage_unauthorized)
  have u': "upstream_unauthorized ModelsList = Inl (APIError (Some 401) ''401 Incorrect API key provided'')"
    using u by (simp add: makeMessage_unauthorized)
  from a b u' six' four' nz inc show ?thesis by blast
qed

end
